theory Spec2Isabelle
  imports Complex_Main "HOL-Library.Monad_Syntax" "HOL-Library.Option_ord"
begin

section \<open>Floating-point data and arithmetic\<close>

text \<open>
  The source computes with \<^verbatim>\<open>float\<close> coordinates (\<^verbatim>\<open>glm::vec3\<close>), a \<^verbatim>\<open>float\<close> weight
  and \<^verbatim>\<open>double\<close> intermediate sums. A floating-point datum is a finite value (\<open>Fin 0\<close>
  is \<open>+0\<close>), \<open>-0\<close>, an infinity or a NaN; \<^verbatim>\<open>float\<close> and \<^verbatim>\<open>double\<close> data are both of
  this type, the operations say to which format a result is rounded.
\<close>

datatype fp = Fin real | NegZero | PInf | MInf | NaN

text \<open>
  The operations the edge rule uses (lines 51-56): \<^verbatim>\<open>float * float\<close>, unary minus on a
  \<^verbatim>\<open>float\<close>, \<^verbatim>\<open>double * double\<close>, \<^verbatim>\<open>double + double\<close>, the promotion of a \<^verbatim>\<open>float\<close> to
  \<^verbatim>\<open>double\<close> and the cast \<^verbatim>\<open>(float)\<close> of a \<^verbatim>\<open>double\<close>. The driver and the rules take the
  arithmetic as an argument: \<open>ieee\<close> below is the arithmetic of the machine, \<open>exact\<close> the
  arithmetic without rounding in which the specification's formulas are read.
\<close>

record float_arith =
  f_mul :: "fp \<Rightarrow> fp \<Rightarrow> fp"
  f_neg :: "fp \<Rightarrow> fp"
  d_mul :: "fp \<Rightarrow> fp \<Rightarrow> fp"
  d_add :: "fp \<Rightarrow> fp \<Rightarrow> fp"
  to_double :: "fp \<Rightarrow> fp"
  to_float :: "fp \<Rightarrow> fp"

subsection \<open>IEEE 754 binary32 and binary64, round to nearest, ties to even\<close>

fun is_nan :: "fp \<Rightarrow> bool" where
  "is_nan NaN = True"
| "is_nan x = False"

fun is_inf :: "fp \<Rightarrow> bool" where
  "is_inf PInf = True"
| "is_inf MInf = True"
| "is_inf x = False"

fun is_zero :: "fp \<Rightarrow> bool" where
  "is_zero (Fin x) = (x = 0)"
| "is_zero NegZero = True"
| "is_zero x = False"

fun sign_bit :: "fp \<Rightarrow> bool" where
  "sign_bit (Fin x) = (x < 0)"
| "sign_bit NegZero = True"
| "sign_bit MInf = True"
| "sign_bit x = False"

text \<open>The value of a finite datum (both zeros have the value 0).\<close>

fun finite_value :: "fp \<Rightarrow> real" where
  "finite_value (Fin x) = x"
| "finite_value x = 0"

definition signed_zero :: "bool \<Rightarrow> fp" where
  "signed_zero negative = (if negative then NegZero else Fin 0)"

definition signed_inf :: "bool \<Rightarrow> fp" where
  "signed_inf negative = (if negative then MInf else PInf)"

text \<open>The number of binary digits of a natural number.\<close>

fun bit_length :: "nat \<Rightarrow> nat" where
  "bit_length n = (if n = 0 then 0 else Suc (bit_length (n div 2)))"

declare bit_length.simps [simp del]

definition pow2 :: "int \<Rightarrow> real" where
  "pow2 k = (if 0 \<le> k then 2 ^ nat k else 1 / 2 ^ nat (- k))"

text \<open>\<open>ilog2 a\<close> is the exponent \<open>e\<close> with \<open>2\<^sup>e \<le> a < 2\<^sup>e\<^sup>+\<^sup>1\<close>, for \<open>a > 0\<close>.\<close>

definition ilog2 :: "real \<Rightarrow> int" where
  "ilog2 a =
     (if 1 \<le> a then int (bit_length (nat \<lfloor>a\<rfloor>)) - 1
      else - int (bit_length (nat (\<lceil>1 / a\<rceil> - 1))))"

definition round_half_even :: "real \<Rightarrow> int" where
  "round_half_even a =
     (let f = \<lfloor>a\<rfloor>; d = a - of_int f
      in if d < 1 / 2 then f else if 1 / 2 < d then f + 1 else if even f then f else f + 1)"

text \<open>
  Rounding a non-zero real to the binary format with \<open>p\<close> digits of precision, least
  exponent of the unit in the last place \<open>qmin\<close> (subnormal numbers) and greatest
  exponent \<open>emax\<close>: the nearest multiple of the unit in the last place, ties to the even
  one; a result of magnitude \<open>2\<^sup>e\<^sup>m\<^sup>a\<^sup>x\<^sup>+\<^sup>1\<close> or more overflows to an infinity, and a result
  that rounds to nothing is a zero with the sign of the argument.
\<close>

definition round_binary :: "nat \<Rightarrow> int \<Rightarrow> int \<Rightarrow> real \<Rightarrow> fp" where
  "round_binary p qmin emax x =
     (let a = \<bar>x\<bar>;
          q = max (ilog2 a - (int p - 1)) qmin;
          n = round_half_even (a / pow2 q);
          y = of_int n * pow2 q
      in if pow2 (emax + 1) \<le> y then signed_inf (x < 0)
         else if n = 0 then signed_zero (x < 0)
         else Fin (if x < 0 then - y else y))"

definition round_float :: "real \<Rightarrow> fp" where
  "round_float = round_binary 24 (- 149) 127"

definition round_double :: "real \<Rightarrow> fp" where
  "round_double = round_binary 53 (- 1074) 1023"

text \<open>
  Multiplication: NaN for a NaN operand and for infinity times zero; an infinity or a
  zero with the sign of the product; otherwise the rounded product.
\<close>

definition fp_mul :: "(real \<Rightarrow> fp) \<Rightarrow> fp \<Rightarrow> fp \<Rightarrow> fp" where
  "fp_mul rnd a b =
     (if is_nan a \<or> is_nan b then NaN
      else if is_inf a \<or> is_inf b then
        (if is_zero a \<or> is_zero b then NaN else signed_inf (sign_bit a \<noteq> sign_bit b))
      else
        (let x = finite_value a * finite_value b
         in if x = 0 then signed_zero (sign_bit a \<noteq> sign_bit b) else rnd x))"

text \<open>
  Addition: NaN for a NaN operand and for the sum of opposite infinities; an exact sum
  of zero is \<open>+0\<close>, except that \<open>-0 + -0\<close> is \<open>-0\<close>; otherwise the rounded sum.
\<close>

definition fp_add :: "(real \<Rightarrow> fp) \<Rightarrow> fp \<Rightarrow> fp \<Rightarrow> fp" where
  "fp_add rnd a b =
     (if is_nan a \<or> is_nan b then NaN
      else if is_inf a then (if is_inf b \<and> a \<noteq> b then NaN else a)
      else if is_inf b then b
      else
        (let x = finite_value a + finite_value b
         in if x = 0 then signed_zero (a = NegZero \<and> b = NegZero) else rnd x))"

fun fp_neg :: "fp \<Rightarrow> fp" where
  "fp_neg (Fin x) = (if x = 0 then NegZero else Fin (- x))"
| "fp_neg NegZero = Fin 0"
| "fp_neg PInf = MInf"
| "fp_neg MInf = PInf"
| "fp_neg NaN = NaN"

text \<open>Conversion to a narrower format: zeros, infinities and NaN stay, the rest is rounded.\<close>

fun fp_cast :: "(real \<Rightarrow> fp) \<Rightarrow> fp \<Rightarrow> fp" where
  "fp_cast rnd (Fin x) = (if x = 0 then Fin 0 else rnd x)"
| "fp_cast rnd x = x"

text \<open>
  The arithmetic of the machine: \<^verbatim>\<open>float\<close> is binary32, \<^verbatim>\<open>double\<close> is binary64, every
  operation is rounded once, to nearest, to the format of its type (no wider
  intermediate format, no fused multiply-add); every \<^verbatim>\<open>float\<close> is a \<^verbatim>\<open>double\<close>, so the
  promotion changes nothing.
\<close>

definition ieee :: float_arith where
  "ieee =
     \<lparr> f_mul = fp_mul round_float, f_neg = fp_neg, d_mul = fp_mul round_double,
       d_add = fp_add round_double, to_double = (\<lambda>x. x), to_float = fp_cast round_float \<rparr>"

subsection \<open>Exact arithmetic\<close>

text \<open>
  The arithmetic of the reals, without rounding and without overflow: a result is the
  exact value when the operands are finite, and NaN otherwise.
\<close>

fun exact_value :: "fp \<Rightarrow> real option" where
  "exact_value (Fin x) = Some x"
| "exact_value NegZero = Some 0"
| "exact_value x = None"

fun of_exact :: "real option \<Rightarrow> fp" where
  "of_exact (Some x) = Fin x"
| "of_exact None = NaN"

definition exact_op :: "(real \<Rightarrow> real \<Rightarrow> real) \<Rightarrow> fp \<Rightarrow> fp \<Rightarrow> fp" where
  "exact_op f a b =
     of_exact (case (exact_value a, exact_value b) of
                 (Some x, Some y) \<Rightarrow> Some (f x y)
               | _ \<Rightarrow> None)"

definition exact :: float_arith where
  "exact =
     \<lparr> f_mul = exact_op (*), f_neg = (\<lambda>a. of_exact (map_option uminus (exact_value a))),
       d_mul = exact_op (*), d_add = exact_op (+),
       to_double = (\<lambda>a. of_exact (exact_value a)), to_float = (\<lambda>a. of_exact (exact_value a)) \<rparr>"

section \<open>Data model of the half-edge mesh\<close>

text \<open>
  The source (\<^verbatim>\<open>application.cpp\<close>) works on a half-edge mesh whose objects reference one
  another through raw pointers. The mesh is modelled as an arena: a pointer is either
  \<^verbatim>\<open>nullptr\<close> (\<open>None\<close>) or the index of an object in the list that holds the objects of
  its kind (\<open>Some i\<close>). Dereferencing \<^verbatim>\<open>nullptr\<close>, or an index that names no object, is
  undefined behaviour in C++; the model makes it the value \<open>None\<close> of the dereference.
\<close>

text \<open>\<^verbatim>\<open>glm::vec3\<close>, fields \<^verbatim>\<open>x\<close>, \<^verbatim>\<open>y\<close>, \<^verbatim>\<open>z\<close> of type \<^verbatim>\<open>float\<close>.\<close>

record vec3 =
  vec_x :: fp
  vec_y :: fp
  vec_z :: fp

text \<open>
  Modelled from the spec: the types \<^verbatim>\<open>Vertex\<close>, \<^verbatim>\<open>Edge\<close>, \<^verbatim>\<open>Face\<close> and
  \<^verbatim>\<open>SubdivisionTriangleMesh\<close> are declared in \<^verbatim>\<open>application.hpp\<close>, which is not among
  the sources. The records hold the fields the specification lists (section 3) and
  \<^verbatim>\<open>application.cpp\<close> reads.
\<close>

text \<open>\<^verbatim>\<open>Vertex\<close>: the source reads only \<^verbatim>\<open>position\<close>.\<close>

record Vertex =
  position :: vec3

text \<open>
  \<^verbatim>\<open>Edge\<close>: a half-edge with the pointer fields \<^verbatim>\<open>start\<close>, \<^verbatim>\<open>end\<close> (vertices) and
  \<^verbatim>\<open>next\<close>, \<^verbatim>\<open>prev\<close>, \<^verbatim>\<open>twin\<close> (half-edges). The fields \<^verbatim>\<open>end\<close> and \<^verbatim>\<open>next\<close> are
  suffixed, their names being reserved words.
\<close>

record Edge =
  start :: "nat option"
  end_vertex :: "nat option"
  next_edge :: "nat option"
  prev :: "nat option"
  twin :: "nat option"

text \<open>\<^verbatim>\<open>Face\<close>: one representative half-edge, \<^verbatim>\<open>face.edge\<close>.\<close>

record Face =
  edge :: "nat option"

text \<open>
  \<^verbatim>\<open>SubdivisionTriangleMesh\<close>: the arenas of the vertices and half-edges, and the faces
  the driver iterates over (\<^verbatim>\<open>src_mesh.faces\<close>).
\<close>

record SubdivisionTriangleMesh =
  vertices :: "Vertex list"
  edges :: "Edge list"
  faces :: "Face list"

text \<open>Dereferencing a vertex pointer and an edge pointer; \<open>None\<close> is undefined behaviour.\<close>

definition deref_vertex :: "SubdivisionTriangleMesh \<Rightarrow> nat option \<Rightarrow> Vertex option" where
  "deref_vertex m p =
     (case p of
        None \<Rightarrow> None
      | Some i \<Rightarrow> if i < length (vertices m) then Some (vertices m ! i) else None)"

definition deref_edge :: "SubdivisionTriangleMesh \<Rightarrow> nat option \<Rightarrow> Edge option" where
  "deref_edge m p =
     (case p of
        None \<Rightarrow> None
      | Some i \<Rightarrow> if i < length (edges m) then Some (edges m ! i) else None)"

section \<open>The stencil evaluator\<close>

text \<open>
  \<^verbatim>\<open>Application::vertex_rule\<close> (lines 14-22): reads \<^verbatim>\<open>vertex->position\<close> and returns it.
\<close>

definition vertex_rule :: "SubdivisionTriangleMesh \<Rightarrow> nat option \<Rightarrow> vec3 option" where
  "vertex_rule m vertex =
     (case deref_vertex m vertex of
        None \<Rightarrow> None
      | Some v \<Rightarrow> Some (position v))"

text \<open>
  \<^verbatim>\<open>Application::edge_rule\<close> (lines 33-60). The first block follows the pointer chains
  that collect the eight vertex pointers (lines 37-44); every \<^verbatim>\<open>->\<close> is a
  dereference. The second block reads the eight positions and combines them per axis
  with the source's expression (lines 51-56), whatever the weight is.

  For one axis, with \<open>c\<close> the eight coordinates: \<^verbatim>\<open>c0 * 0.5\<close> and \<^verbatim>\<open>c1 * 0.5\<close> are
  \<^verbatim>\<open>double\<close> products (\<^verbatim>\<open>0.5\<close> is a \<^verbatim>\<open>double\<close> literal); \<^verbatim>\<open>c2 * 2 * w\<close> and
  \<^verbatim>\<open>c3 * 2 * w\<close> are two \<^verbatim>\<open>float\<close> products each (the \<^verbatim>\<open>int 2\<close> becomes a \<^verbatim>\<open>float\<close>);
  \<^verbatim>\<open>c4 * -w\<close> to \<^verbatim>\<open>c7 * -w\<close> are \<^verbatim>\<open>float\<close> products with the negated weight; the eight
  terms are added from left to right in \<^verbatim>\<open>double\<close>, and the sum is cast to \<^verbatim>\<open>float\<close>.
\<close>

definition edge_rule_axis :: "float_arith \<Rightarrow> fp \<Rightarrow> fp list \<Rightarrow> fp" where
  "edge_rule_axis ar w c =
     to_float ar
       (foldl (d_add ar)
          (d_mul ar (to_double ar (c ! 0)) (Fin (1 / 2)))
          [d_mul ar (to_double ar (c ! 1)) (Fin (1 / 2)),
           to_double ar (f_mul ar (f_mul ar (c ! 2) (Fin 2)) w),
           to_double ar (f_mul ar (f_mul ar (c ! 3) (Fin 2)) w),
           to_double ar (f_mul ar (c ! 4) (f_neg ar w)),
           to_double ar (f_mul ar (c ! 5) (f_neg ar w)),
           to_double ar (f_mul ar (c ! 6) (f_neg ar w)),
           to_double ar (f_mul ar (c ! 7) (f_neg ar w))])"

text \<open>The three assignments of lines 51-56, as a function of the eight positions.\<close>

definition edge_point :: "float_arith \<Rightarrow> fp \<Rightarrow> vec3 list \<Rightarrow> vec3" where
  "edge_point ar w ps =
     \<lparr> vec_x = edge_rule_axis ar w (map vec_x ps),
       vec_y = edge_rule_axis ar w (map vec_y ps),
       vec_z = edge_rule_axis ar w (map vec_z ps) \<rparr>"

definition edge_rule ::
  "float_arith \<Rightarrow> SubdivisionTriangleMesh \<Rightarrow> nat option \<Rightarrow> fp \<Rightarrow> vec3 option" where
  "edge_rule ar m e w =
     do {
       ed \<leftarrow> deref_edge m e;
       e_n \<leftarrow> deref_edge m (next_edge ed);
       e_t \<leftarrow> deref_edge m (twin ed);
       e_tn \<leftarrow> deref_edge m (next_edge e_t);
       e_nt \<leftarrow> deref_edge m (twin e_n);
       e_ntp \<leftarrow> deref_edge m (prev e_nt);
       e_p \<leftarrow> deref_edge m (prev ed);
       e_pt \<leftarrow> deref_edge m (twin e_p);
       e_ptp \<leftarrow> deref_edge m (prev e_pt);
       e_tp \<leftarrow> deref_edge m (prev e_t);
       e_tpt \<leftarrow> deref_edge m (twin e_tp);
       e_tptp \<leftarrow> deref_edge m (prev e_tpt);
       e_tnt \<leftarrow> deref_edge m (twin e_tn);
       e_tntp \<leftarrow> deref_edge m (prev e_tnt);
       v0 \<leftarrow> deref_vertex m (start ed);
       v1 \<leftarrow> deref_vertex m (end_vertex ed);
       v2 \<leftarrow> deref_vertex m (end_vertex e_n);
       v3 \<leftarrow> deref_vertex m (end_vertex e_tn);
       v4 \<leftarrow> deref_vertex m (start e_ntp);
       v5 \<leftarrow> deref_vertex m (start e_ptp);
       v6 \<leftarrow> deref_vertex m (start e_tptp);
       v7 \<leftarrow> deref_vertex m (start e_tntp);
       Some (edge_point ar w (map position [v0, v1, v2, v3, v4, v5, v6, v7]))
     }"

section \<open>The edge rule as the specification words it\<close>

text \<open>
  The specification names the eight stencil points by navigation paths and gives each a
  weight; the result is the weighted sum per axis. These definitions follow the
  specification, to be compared with \<open>edge_rule\<close> above.
\<close>

datatype link = Next | Prev | Twin

definition follow_link :: "SubdivisionTriangleMesh \<Rightarrow> nat option \<Rightarrow> link \<Rightarrow> nat option" where
  "follow_link m p l =
     (case deref_edge m p of
        None \<Rightarrow> None
      | Some ed \<Rightarrow> (case l of Next \<Rightarrow> next_edge ed | Prev \<Rightarrow> prev ed | Twin \<Rightarrow> twin ed))"

text \<open>\<open>e.l1.l2...\<close>: the half-edge reached from \<open>e\<close> by the links in order.\<close>

definition follow :: "SubdivisionTriangleMesh \<Rightarrow> nat option \<Rightarrow> link list \<Rightarrow> nat option" where
  "follow m p ls = foldl (follow_link m) p ls"

definition start_of :: "SubdivisionTriangleMesh \<Rightarrow> nat option \<Rightarrow> vec3 option" where
  "start_of m p =
     (case deref_edge m p of
        None \<Rightarrow> None
      | Some ed \<Rightarrow> map_option position (deref_vertex m (start ed)))"

definition end_of :: "SubdivisionTriangleMesh \<Rightarrow> nat option \<Rightarrow> vec3 option" where
  "end_of m p =
     (case deref_edge m p of
        None \<Rightarrow> None
      | Some ed \<Rightarrow> map_option position (deref_vertex m (end_vertex ed)))"

text \<open>
  The eight positions \<open>P0 .. P7\<close> of the specification, in order; \<open>None\<close> when a link or
  a vertex on one of the paths is absent.
\<close>

definition stencil :: "SubdivisionTriangleMesh \<Rightarrow> nat option \<Rightarrow> vec3 list option" where
  "stencil m e =
     (let ps = [start_of m e,
                end_of m e,
                end_of m (follow m e [Next]),
                end_of m (follow m e [Twin, Next]),
                start_of m (follow m e [Next, Twin, Prev]),
                start_of m (follow m e [Prev, Twin, Prev]),
                start_of m (follow m e [Twin, Prev, Twin, Prev]),
                start_of m (follow m e [Twin, Next, Twin, Prev])]
      in if list_all (\<lambda>p. p \<noteq> None) ps then Some (map the ps) else None)"

text \<open>The eight weights, for a weight \<open>w\<close> that is a real number.\<close>

definition stencil_weights :: "real \<Rightarrow> real list" where
  "stencil_weights w = [1 / 2, 1 / 2, 2 * w, 2 * w, - w, - w, - w, - w]"

text \<open>
  \<open>\<Sum> weight\<^sub>i \<cdot> c\<^sub>i\<close> over the reals, for one axis: the exact sum when every coordinate is
  finite, and not a number otherwise.
\<close>

definition axis_sum :: "real list \<Rightarrow> fp list \<Rightarrow> fp" where
  "axis_sum ws cs =
     of_exact (map_option (\<lambda>xs. \<Sum>(a, x) \<leftarrow> zip ws xs. a * x) (those (map exact_value cs)))"

text \<open>\<open>\<Sum> weight\<^sub>i \<cdot> P\<^sub>i\<close>, independently per coordinate axis.\<close>

definition weighted_sum :: "real list \<Rightarrow> vec3 list \<Rightarrow> vec3" where
  "weighted_sum ws ps =
     \<lparr> vec_x = axis_sum ws (map vec_x ps),
       vec_y = axis_sum ws (map vec_y ps),
       vec_z = axis_sum ws (map vec_z ps) \<rparr>"


section \<open>The destination builder\<close>

text \<open>
  Modelled from the spec: the class \<^verbatim>\<open>SubdivisionTriangleMeshBuilder\<close> and its operations
  \<^verbatim>\<open>find_dst_vertex_of\<close>, \<^verbatim>\<open>insert_vertex\<close>, \<^verbatim>\<open>insert_triangle\<close> and \<^verbatim>\<open>finalize\<close> are
  declared in \<^verbatim>\<open>application.hpp\<close>, which is not among the sources. The specification
  (sections 3 and 4.2) describes the builder's state as a mapping from a source key to the
  destination vertex already created for it, a source key being a source vertex identity
  or an unordered source edge identity, "e.g. a canonicalized pair of source vertex
  identities ... (min/max of the two endpoint identities)".
\<close>

datatype source_key = VertexKey "nat option" | EdgeKey "nat option" "nat option"

definition unordered_edge :: "nat option \<Rightarrow> nat option \<Rightarrow> source_key" where
  "unordered_edge a b = (if a \<le> b then EdgeKey a b else EdgeKey b a)"

text \<open>
  Modelled from the spec: the key of a source half-edge, the canonical pair of its
  endpoints' identities. Reading the endpoints dereferences the edge pointer.
\<close>

definition edge_key :: "SubdivisionTriangleMesh \<Rightarrow> nat option \<Rightarrow> source_key option" where
  "edge_key m e =
     (case deref_edge m e of
        None \<Rightarrow> None
      | Some ed \<Rightarrow> Some (unordered_edge (start ed) (end_vertex ed)))"

text \<open>
  The calls the driver makes on the builder and on the destination mesh are recorded in
  order, so that claims about their order can be stated.
\<close>

datatype call = InsertVertex source_key | InsertTriangle nat nat nat | Finalize | CheckInvariants

text \<open>
  Modelled from the spec: the builder together with the destination mesh it fills. A
  destination vertex is the index of its position in \<open>dst_vertices\<close>; \<open>dst_vertex_map\<close> is
  the mapping from source keys to destination vertices.
\<close>

record SubdivisionTriangleMeshBuilder =
  dst_vertices :: "vec3 list"
  dst_triangles :: "(nat \<times> nat \<times> nat) list"
  dst_vertex_map :: "(source_key \<times> nat) list"
  calls :: "call list"

text \<open>The builder over an empty destination mesh (line 74).\<close>

definition new_builder :: SubdivisionTriangleMeshBuilder where
  "new_builder = \<lparr> dst_vertices = [], dst_triangles = [], dst_vertex_map = [], calls = [] \<rparr>"

text \<open>
  Modelled from the spec: \<^verbatim>\<open>find_dst_vertex_of\<close>, the specification's
  "find_existing(source_key)": the destination vertex already created for the key, or
  not found, here \<open>None\<close> for the \<^verbatim>\<open>nullptr\<close> the driver tests for.
\<close>

definition find_dst_vertex_of :: "SubdivisionTriangleMeshBuilder \<Rightarrow> source_key \<Rightarrow> nat option" where
  "find_dst_vertex_of bld k = map_of (dst_vertex_map bld) k"

text \<open>
  Modelled from the spec: \<^verbatim>\<open>insert_vertex\<close> ("creates a new destination vertex at
  position, records it under source_key for future lookups, returns the new vertex"; the
  builder does not re-check the key).
\<close>

definition insert_vertex ::
  "SubdivisionTriangleMeshBuilder \<Rightarrow> vec3 \<Rightarrow> source_key \<Rightarrow> nat \<times> SubdivisionTriangleMeshBuilder" where
  "insert_vertex bld pos k =
     (let v = length (dst_vertices bld)
      in (v, bld \<lparr> dst_vertices := dst_vertices bld @ [pos],
                   dst_vertex_map := (k, v) # dst_vertex_map bld,
                   calls := calls bld @ [InsertVertex k] \<rparr>))"

text \<open>
  Modelled from the spec: \<^verbatim>\<open>insert_triangle\<close> ("records a new face over three
  already-created destination vertices", in the order given).
\<close>

definition insert_triangle ::
  "SubdivisionTriangleMeshBuilder \<Rightarrow> nat \<Rightarrow> nat \<Rightarrow> nat \<Rightarrow> SubdivisionTriangleMeshBuilder" where
  "insert_triangle bld a b c =
     bld \<lparr> dst_triangles := dst_triangles bld @ [(a, b, c)],
           calls := calls bld @ [InsertTriangle a b c] \<rparr>"

section \<open>Outcomes of the driver\<close>

text \<open>
  A run of the driver returns, leaves by an exception, or has undefined behaviour (a
  null or dangling pointer was dereferenced: C++ promises nothing, in particular no
  report to the caller). The destination mesh is filled in place, so a run that throws
  leaves the mesh as it was at the throw.
\<close>

datatype failure = OutOfRange | NonManifoldResult | InvariantViolation

datatype 'a outcome = Returns 'a | Throws failure SubdivisionTriangleMeshBuilder | Undefined

fun bind_outcome :: "'a outcome \<Rightarrow> ('a \<Rightarrow> 'b outcome) \<Rightarrow> 'b outcome" where
  "bind_outcome (Returns a) f = f a"
| "bind_outcome (Throws x bld) f = Throws x bld"
| "bind_outcome Undefined f = Undefined"

text \<open>
  The driver calls its two collaborators, \<^verbatim>\<open>bld.finalize()\<close> (line 146) and
  \<^verbatim>\<open>check_mesh_invariants(dst_mesh)\<close> (line 148), as statements: whatever value a call
  returns is discarded, and there is no \<^verbatim>\<open>try\<close> around them. So a call ends in one of
  three ways for the driver: it completes, it completes having reported a failure in the
  value it returns (or in a marker it leaves in the mesh), or it throws.
\<close>

datatype call_result = Completes | FailureReturned | FailureThrown

text \<open>
  Modelled from the spec: \<^verbatim>\<open>finalize\<close> derives the connectivity of the destination mesh
  and "fails (or leaves a non-manifold marker)" when the triangles cannot be paired. Its
  body is not among the sources; \<open>pairs\<close> says how the call ends on a builder. Only a
  throw ends the driver: a returned failure is discarded with the returned value.
\<close>

definition finalize ::
  "(SubdivisionTriangleMeshBuilder \<Rightarrow> call_result) \<Rightarrow> SubdivisionTriangleMeshBuilder
     \<Rightarrow> SubdivisionTriangleMeshBuilder outcome" where
  "finalize pairs bld =
     (let bld' = bld \<lparr> calls := calls bld @ [Finalize] \<rparr>
      in case pairs bld of
           Completes \<Rightarrow> Returns bld'
         | FailureReturned \<Rightarrow> Returns bld'
         | FailureThrown \<Rightarrow> Throws NonManifoldResult bld')"

text \<open>
  Modelled from the spec: \<^verbatim>\<open>check_mesh_invariants\<close>, the external checker, "signals
  failure" when the finalized mesh is not a consistent half-edge structure. Its body is
  not among the sources; \<open>holds\<close> says how the call ends on a finalized mesh. Only a throw
  ends the driver: a returned failure is discarded with the returned value (line 148).
\<close>

definition check_mesh_invariants ::
  "(SubdivisionTriangleMeshBuilder \<Rightarrow> call_result) \<Rightarrow> SubdivisionTriangleMeshBuilder
     \<Rightarrow> SubdivisionTriangleMeshBuilder outcome" where
  "check_mesh_invariants holds dst =
     (let dst' = dst \<lparr> calls := calls dst @ [CheckInvariants] \<rparr>
      in case holds dst of
           Completes \<Rightarrow> Returns dst'
         | FailureReturned \<Rightarrow> Returns dst'
         | FailureThrown \<Rightarrow> Throws InvariantViolation dst')"

section \<open>The refinement driver\<close>

text \<open>
  The loop over \<^verbatim>\<open>face_vertices\<close> (lines 90-109); \<open>vrv\<close> is \<^verbatim>\<open>vertex_rule_vertices\<close>. The
  builder is asked for the vertex; when it has none, the vertex rule computes the
  position and the new destination vertex is inserted; either way one vertex is pushed.
\<close>

fun vertex_loop ::
  "SubdivisionTriangleMesh \<Rightarrow> nat option list \<Rightarrow> SubdivisionTriangleMeshBuilder \<Rightarrow> nat list
     \<Rightarrow> (nat list \<times> SubdivisionTriangleMeshBuilder) outcome" where
  "vertex_loop m [] bld vrv = Returns (vrv, bld)"
| "vertex_loop m (v # vs) bld vrv =
     (case find_dst_vertex_of bld (VertexKey v) of
        None \<Rightarrow>
          (case vertex_rule m v of
             None \<Rightarrow> Undefined
           | Some pos \<Rightarrow>
               (case insert_vertex bld pos (VertexKey v) of
                  (toProcess, bld') \<Rightarrow> vertex_loop m vs bld' (vrv @ [toProcess])))
      | Some toProcess \<Rightarrow> vertex_loop m vs bld (vrv @ [toProcess]))"

text \<open>
  The loop over \<^verbatim>\<open>face_edges\<close> (lines 117-136); \<open>erv\<close> is \<^verbatim>\<open>edge_rule_vertices\<close>. The
  builder's lookup by edge reads the edge's key (see \<open>edge_key\<close>).
\<close>

fun edge_loop ::
  "float_arith \<Rightarrow> SubdivisionTriangleMesh \<Rightarrow> fp \<Rightarrow> nat option list \<Rightarrow> SubdivisionTriangleMeshBuilder
     \<Rightarrow> nat list \<Rightarrow> (nat list \<times> SubdivisionTriangleMeshBuilder) outcome" where
  "edge_loop ar m w [] bld erv = Returns (erv, bld)"
| "edge_loop ar m w (e # es) bld erv =
     (case edge_key m e of
        None \<Rightarrow> Undefined
      | Some k \<Rightarrow>
          (case find_dst_vertex_of bld k of
             None \<Rightarrow>
               (case edge_rule ar m e w of
                  None \<Rightarrow> Undefined
                | Some pos \<Rightarrow>
                    (case insert_vertex bld pos k of
                       (toProcess, bld') \<Rightarrow> edge_loop ar m w es bld' (erv @ [toProcess])))
           | Some toProcess \<Rightarrow> edge_loop ar m w es bld (erv @ [toProcess])))"

text \<open>
  The block of lines 81-137 for one face: the three face vertices
  \<^verbatim>\<open>face.edge->start\<close>, \<^verbatim>\<open>face.edge->end\<close>, \<^verbatim>\<open>face.edge->next->end\<close> go through the vertex
  loop, then the three face edges \<^verbatim>\<open>face.edge\<close>, \<^verbatim>\<open>face.edge->next\<close>, \<^verbatim>\<open>face.edge->prev\<close>
  through the edge loop.
\<close>

definition compute_rule_vertices ::
  "float_arith \<Rightarrow> SubdivisionTriangleMesh \<Rightarrow> fp \<Rightarrow> SubdivisionTriangleMeshBuilder \<Rightarrow> Face
     \<Rightarrow> (nat list \<times> nat list \<times> SubdivisionTriangleMeshBuilder) outcome" where
  "compute_rule_vertices ar m w bld face =
     (case deref_edge m (edge face) of
        None \<Rightarrow> Undefined
      | Some e0 \<Rightarrow>
          (case deref_edge m (next_edge e0) of
             None \<Rightarrow> Undefined
           | Some e1 \<Rightarrow>
               bind_outcome (vertex_loop m [start e0, end_vertex e0, end_vertex e1] bld [])
                 (\<lambda>(vrv, bld1).
                    bind_outcome (edge_loop ar m w [edge face, next_edge e0, prev e0] bld1 [])
                      (\<lambda>(erv, bld2). Returns (vrv, erv, bld2)))))"

text \<open>\<^verbatim>\<open>std::vector::at\<close> (suffixed: \<open>at\<close> is taken): bounds-checked access; \<open>None\<close> is \<^verbatim>\<open>std::out_of_range\<close>.\<close>

definition at_index :: "'a list \<Rightarrow> nat \<Rightarrow> 'a option" where
  "at_index xs i = (if i < length xs then Some (xs ! i) else None)"

text \<open>One \<^verbatim>\<open>bld.insert_triangle(_.at(i), _.at(j), _.at(k))\<close> statement.\<close>

definition insert_triangle_at ::
  "SubdivisionTriangleMeshBuilder \<Rightarrow> nat option \<Rightarrow> nat option \<Rightarrow> nat option
     \<Rightarrow> SubdivisionTriangleMeshBuilder outcome" where
  "insert_triangle_at bld a b c =
     (case (a, b, c) of
        (Some a', Some b', Some c') \<Rightarrow> Returns (insert_triangle bld a' b' c')
      | _ \<Rightarrow> Throws OutOfRange bld)"

text \<open>The four \<^verbatim>\<open>insert_triangle\<close> statements (lines 140-143).\<close>

definition insert_face_triangles ::
  "nat list \<Rightarrow> nat list \<Rightarrow> SubdivisionTriangleMeshBuilder \<Rightarrow> SubdivisionTriangleMeshBuilder outcome" where
  "insert_face_triangles vrv erv bld =
     bind_outcome (insert_triangle_at bld (at_index vrv 0) (at_index erv 0) (at_index erv 2))
       (\<lambda>bld1. bind_outcome (insert_triangle_at bld1 (at_index erv 0) (at_index vrv 1) (at_index erv 1))
          (\<lambda>bld2. bind_outcome (insert_triangle_at bld2 (at_index erv 2) (at_index erv 1) (at_index vrv 2))
             (\<lambda>bld3. insert_triangle_at bld3 (at_index erv 0) (at_index erv 1) (at_index erv 2))))"

text \<open>The body of the loop over the faces (lines 77-144).\<close>

definition process_face ::
  "float_arith \<Rightarrow> SubdivisionTriangleMesh \<Rightarrow> fp \<Rightarrow> SubdivisionTriangleMeshBuilder \<Rightarrow> Face
     \<Rightarrow> SubdivisionTriangleMeshBuilder outcome" where
  "process_face ar m w bld face =
     bind_outcome (compute_rule_vertices ar m w bld face)
       (\<lambda>(vrv, erv, bld'). insert_face_triangles vrv erv bld')"

fun face_loop ::
  "float_arith \<Rightarrow> SubdivisionTriangleMesh \<Rightarrow> fp \<Rightarrow> Face list \<Rightarrow> SubdivisionTriangleMeshBuilder
     \<Rightarrow> SubdivisionTriangleMeshBuilder outcome" where
  "face_loop ar m w [] bld = Returns bld"
| "face_loop ar m w (face # fs) bld =
     (case process_face ar m w bld face of
        Returns bld' \<Rightarrow> face_loop ar m w fs bld'
      | Throws x bld' \<Rightarrow> Throws x bld'
      | Undefined \<Rightarrow> Undefined)"

text \<open>
  \<^verbatim>\<open>Application::butterfly_subdivision\<close> (lines 73-149): a builder over the (empty)
  destination mesh, the loop over the faces of the source mesh, \<^verbatim>\<open>finalize\<close>, and the
  invariant checker. \<open>ar\<close> is the arithmetic the edge rule computes in; \<open>pairs\<close> and
  \<open>holds\<close> stand for the two collaborators whose bodies are not among the sources.
\<close>

definition butterfly_subdivision ::
  "float_arith \<Rightarrow> (SubdivisionTriangleMeshBuilder \<Rightarrow> call_result)
     \<Rightarrow> (SubdivisionTriangleMeshBuilder \<Rightarrow> call_result)
     \<Rightarrow> SubdivisionTriangleMesh \<Rightarrow> fp \<Rightarrow> SubdivisionTriangleMeshBuilder outcome" where
  "butterfly_subdivision ar pairs holds src_mesh w =
     bind_outcome (face_loop ar src_mesh w (faces src_mesh) new_builder)
       (\<lambda>bld. bind_outcome (finalize pairs bld) (check_mesh_invariants holds))"

text \<open>
  The destination mesh a run leaves behind (it is filled in place), whether the run
  returned or threw; \<open>None\<close> for a run with undefined behaviour.
\<close>

fun destination :: "SubdivisionTriangleMeshBuilder outcome \<Rightarrow> SubdivisionTriangleMeshBuilder option" where
  "destination (Returns dst) = Some dst"
| "destination (Throws x dst) = Some dst"
| "destination Undefined = None"

section \<open>Notions used to state and prove the claims\<close>

text \<open>
  The steps by which the driver changes the builder: a destination vertex is inserted
  for a source vertex that has none, at the position the vertex rule gives; one is
  inserted for a source edge whose key has none, at the position the edge rule gives; a
  triangle is inserted. \<open>driver_steps ar m w bld bld'\<close>: the builder \<open>bld'\<close> is reached from
  \<open>bld\<close> by such steps.
\<close>

inductive driver_steps ::
  "float_arith \<Rightarrow> SubdivisionTriangleMesh \<Rightarrow> fp \<Rightarrow> SubdivisionTriangleMeshBuilder
     \<Rightarrow> SubdivisionTriangleMeshBuilder \<Rightarrow> bool"
  for ar :: float_arith and m :: SubdivisionTriangleMesh and w :: fp
    and bld :: SubdivisionTriangleMeshBuilder where
  no_step: "driver_steps ar m w bld bld"
| vertex_step:
    "driver_steps ar m w bld b \<Longrightarrow> find_dst_vertex_of b (VertexKey v) = None \<Longrightarrow>
     vertex_rule m v = Some pos \<Longrightarrow>
     driver_steps ar m w bld (snd (insert_vertex b pos (VertexKey v)))"
| edge_step:
    "driver_steps ar m w bld b \<Longrightarrow> edge_key m e = Some k \<Longrightarrow> find_dst_vertex_of b k = None \<Longrightarrow>
     edge_rule ar m e w = Some pos \<Longrightarrow>
     driver_steps ar m w bld (snd (insert_vertex b pos k))"
| triangle_step:
    "driver_steps ar m w bld b \<Longrightarrow> driver_steps ar m w bld (insert_triangle b a1 a2 a3)"

text \<open>The source keys of the \<^verbatim>\<open>insert_vertex\<close> calls of a call history, in order.\<close>

fun created_keys :: "call list \<Rightarrow> source_key list" where
  "created_keys [] = []"
| "created_keys (InsertVertex k # cs) = k # created_keys cs"
| "created_keys (c # cs) = created_keys cs"


text \<open>
  Where the rules put the destination vertex of a source key: at the vertex rule's
  position for a source vertex, at the edge rule's position on a half-edge with that key
  for a source edge.
\<close>

definition placed ::
  "float_arith \<Rightarrow> SubdivisionTriangleMesh \<Rightarrow> fp \<Rightarrow> source_key \<Rightarrow> vec3 \<Rightarrow> bool" where
  "placed ar m w k pos =
     (case k of
        VertexKey v \<Rightarrow> vertex_rule m v = Some pos
      | EdgeKey x y \<Rightarrow> (\<exists>e. edge_key m e = Some k \<and> edge_rule ar m e w = Some pos))"

text \<open>
  The four child triangles of a source face as the specification words them:
  \<open>v0, v1, v2\<close> are the destination counterparts of the face's vertices in face order
  (\<^verbatim>\<open>face.edge->start\<close>, \<^verbatim>\<open>face.edge->end\<close>, \<^verbatim>\<open>face.edge->next->end\<close>) and \<open>m0, m1, m2\<close> those of
  the edges \<^verbatim>\<open>face.edge\<close>, \<^verbatim>\<open>face.edge->next\<close>, \<^verbatim>\<open>face.edge->prev\<close>, looked up in the
  destination \<open>dst\<close>.
\<close>

definition child_triangles ::
  "SubdivisionTriangleMesh \<Rightarrow> SubdivisionTriangleMeshBuilder \<Rightarrow> Face
     \<Rightarrow> (nat \<times> nat \<times> nat) list option" where
  "child_triangles m dst face =
     do {
       e0 \<leftarrow> deref_edge m (edge face);
       e1 \<leftarrow> deref_edge m (next_edge e0);
       v0 \<leftarrow> find_dst_vertex_of dst (VertexKey (start e0));
       v1 \<leftarrow> find_dst_vertex_of dst (VertexKey (end_vertex e0));
       v2 \<leftarrow> find_dst_vertex_of dst (VertexKey (end_vertex e1));
       k0 \<leftarrow> edge_key m (edge face);
       k1 \<leftarrow> edge_key m (next_edge e0);
       k2 \<leftarrow> edge_key m (prev e0);
       m0 \<leftarrow> find_dst_vertex_of dst k0;
       m1 \<leftarrow> find_dst_vertex_of dst k1;
       m2 \<leftarrow> find_dst_vertex_of dst k2;
       Some [(v0, m0, m2), (m0, v1, m1), (m2, m1, v2), (m0, m1, m2)]
     }"

text \<open>The directed edges of a triangle, in its vertex order.\<close>

definition triangle_edges :: "nat \<times> nat \<times> nat \<Rightarrow> (nat \<times> nat) list" where
  "triangle_edges t = (case t of (a, b, c) \<Rightarrow> [(a, b), (b, c), (c, a)])"

text \<open>
  The boundary of a source face after the split, walked in the face's winding: each
  half-edge \<open>V\<^sub>i \<rightarrow> V\<^sub>i\<^sub>+\<^sub>1\<close> with edge vertex \<open>m\<^sub>i\<close> becomes \<open>v\<^sub>i \<rightarrow> m\<^sub>i \<rightarrow> v\<^sub>i\<^sub>+\<^sub>1\<close>.
\<close>

definition split_boundary ::
  "SubdivisionTriangleMesh \<Rightarrow> SubdivisionTriangleMeshBuilder \<Rightarrow> Face \<Rightarrow> (nat \<times> nat) list option" where
  "split_boundary m dst face =
     do {
       e0 \<leftarrow> deref_edge m (edge face);
       e1 \<leftarrow> deref_edge m (next_edge e0);
       v0 \<leftarrow> find_dst_vertex_of dst (VertexKey (start e0));
       v1 \<leftarrow> find_dst_vertex_of dst (VertexKey (end_vertex e0));
       v2 \<leftarrow> find_dst_vertex_of dst (VertexKey (end_vertex e1));
       k0 \<leftarrow> edge_key m (edge face);
       k1 \<leftarrow> edge_key m (next_edge e0);
       k2 \<leftarrow> edge_key m (prev e0);
       m0 \<leftarrow> find_dst_vertex_of dst k0;
       m1 \<leftarrow> find_dst_vertex_of dst k1;
       m2 \<leftarrow> find_dst_vertex_of dst k2;
       Some [(v0, m0), (m0, v1), (v1, m1), (m1, v2), (v2, m2), (m2, v0)]
     }"

text \<open>
  The child triangles of a face keep the face's winding: the three corner triangles
  carry the split boundary in the face's direction, and every directed edge of the
  central triangle runs against a directed edge of a corner triangle.
\<close>

definition winding_preserved ::
  "SubdivisionTriangleMesh \<Rightarrow> SubdivisionTriangleMeshBuilder \<Rightarrow> Face \<Rightarrow> bool" where
  "winding_preserved m dst face =
     (case (child_triangles m dst face, split_boundary m dst face) of
        (Some ts, Some bs) \<Rightarrow>
          (let corner_edges = concat (map triangle_edges (take 3 ts))
           in list_all (\<lambda>e. e \<in> set corner_edges) bs \<and>
              list_all (\<lambda>(a, b). (b, a) \<in> set corner_edges) (triangle_edges (ts ! 3)))
      | _ \<Rightarrow> False)"

text \<open>
  A face whose neighbourhood is fully resolvable: the eight stencil points of each of its
  three edges \<^verbatim>\<open>face.edge\<close>, \<^verbatim>\<open>face.edge->next\<close>, \<^verbatim>\<open>face.edge->prev\<close> resolve.
\<close>

definition face_ok :: "SubdivisionTriangleMesh \<Rightarrow> Face \<Rightarrow> bool" where
  "face_ok m face =
     (stencil m (edge face) \<noteq> None \<and>
      stencil m (follow m (edge face) [Next]) \<noteq> None \<and>
      stencil m (follow m (edge face) [Prev]) \<noteq> None)"

section \<open>Concrete meshes\<close>

text \<open>The position with the given finite coordinates.\<close>

definition vec :: "real \<Rightarrow> real \<Rightarrow> real \<Rightarrow> vec3" where
  "vec a b c = \<lparr> vec_x = Fin a, vec_y = Fin b, vec_z = Fin c \<rparr>"

definition vertex_at :: "vec3 \<Rightarrow> Vertex" where
  "vertex_at p = \<lparr> position = p \<rparr>"

text \<open>\<open>half_edge s e n p t\<close>: the half-edge from vertex \<open>s\<close> to vertex \<open>e\<close> with its links.\<close>

definition half_edge :: "nat \<Rightarrow> nat \<Rightarrow> nat \<Rightarrow> nat \<Rightarrow> nat \<Rightarrow> Edge" where
  "half_edge s e n p t =
     \<lparr> start = Some s, end_vertex = Some e, next_edge = Some n, prev = Some p, twin = Some t \<rparr>"

text \<open>A half-edge on an open boundary: it has no twin.\<close>

definition boundary_edge :: "nat \<Rightarrow> nat \<Rightarrow> nat \<Rightarrow> nat \<Rightarrow> Edge" where
  "boundary_edge s e n p =
     \<lparr> start = Some s, end_vertex = Some e, next_edge = Some n, prev = Some p, twin = None \<rparr>"

definition face_of :: "nat \<Rightarrow> Face" where
  "face_of e = \<lparr> edge = Some e \<rparr>"

text \<open>
  The closed tetrahedron over four positions: faces \<open>(0,2,1)\<close>, \<open>(0,1,3)\<close>, \<open>(1,2,3)\<close>,
  \<open>(0,3,2)\<close>; face \<open>k\<close> owns the half-edges \<open>3k\<close>, \<open>3k+1\<close>, \<open>3k+2\<close> in its winding order.
\<close>

definition tetrahedron :: "vec3 \<Rightarrow> vec3 \<Rightarrow> vec3 \<Rightarrow> vec3 \<Rightarrow> SubdivisionTriangleMesh" where
  "tetrahedron p0 p1 p2 p3 =
     \<lparr> vertices = map vertex_at [p0, p1, p2, p3],
       edges = [half_edge 0 2 1 2 11, half_edge 2 1 2 0 6, half_edge 1 0 0 1 3,
                half_edge 0 1 4 5 2, half_edge 1 3 5 3 8, half_edge 3 0 3 4 9,
                half_edge 1 2 7 8 1, half_edge 2 3 8 6 10, half_edge 3 1 6 7 4,
                half_edge 0 3 10 11 5, half_edge 3 2 11 9 7, half_edge 2 0 9 10 0],
       faces = map face_of [0, 3, 6, 9] \<rparr>"

definition unit_tetrahedron :: SubdivisionTriangleMesh where
  "unit_tetrahedron = tetrahedron (vec 0 0 0) (vec 1 0 0) (vec 0 1 0) (vec 0 0 1)"

text \<open>
  Two triangles glued along all three edges (a closed surface with two faces): faces
  \<open>(0,1,2)\<close> and \<open>(1,0,2)\<close>.
\<close>

definition two_faces :: SubdivisionTriangleMesh where
  "two_faces =
     \<lparr> vertices = map vertex_at [vec 0 0 0, vec 2 0 0, vec 0 2 0],
       edges = [half_edge 0 1 1 2 3, half_edge 1 2 2 0 5, half_edge 2 0 0 1 4,
                half_edge 1 0 4 5 0, half_edge 0 2 5 3 2, half_edge 2 1 3 4 1],
       faces = map face_of [0, 3] \<rparr>"

text \<open>A single triangle with an open boundary: no half-edge has a twin.\<close>

definition open_triangle :: SubdivisionTriangleMesh where
  "open_triangle =
     \<lparr> vertices = map vertex_at [vec 0 0 0, vec 2 0 0, vec 0 2 0],
       edges = [boundary_edge 0 1 1 2, boundary_edge 1 2 2 0, boundary_edge 2 0 0 1],
       faces = map face_of [0] \<rparr>"

text \<open>
  The tetrahedron with two corners one unit in the last place apart: \<open>P0 = (1, 0, 0)\<close>
  and \<open>P2 = (1 + 2\<^sup>-\<^sup>2\<^sup>3, 0, 0)\<close> are adjacent \<^verbatim>\<open>float\<close> values on the x axis.
\<close>

definition close_tetrahedron :: SubdivisionTriangleMesh where
  "close_tetrahedron =
     tetrahedron (vec 1 0 0) (vec 0 1 0) (vec (1 + 1 / 2 ^ 23) 0 0) (vec 0 0 1)"

text \<open>
  A tetrahedron with large coordinates: \<open>P0 = P2 = (1, 0, 0)\<close>, \<open>P1 = (2\<^sup>5\<^sup>2, 0, 0)\<close>,
  \<open>P3 = (-2\<^sup>5\<^sup>2, 0, 0)\<close>.
\<close>

definition wide_tetrahedron :: SubdivisionTriangleMesh where
  "wide_tetrahedron =
     tetrahedron (vec 1 0 0) (vec (2 ^ 52) 0 0) (vec 1 0 0) (vec (- (2 ^ 52)) 0 0)"

text \<open>
  \<open>two_faces\<close> with its third vertex far away: \<open>3 \<cdot> 2\<^sup>1\<^sup>2\<^sup>6\<close> is a finite \<^verbatim>\<open>float\<close>, twice
  it is not.
\<close>

definition far_apex :: SubdivisionTriangleMesh where
  "far_apex = two_faces \<lparr> vertices := map vertex_at [vec 0 0 0, vec 2 0 0, vec 0 (3 * 2 ^ 126) 0] \<rparr>"

text \<open>The \<^verbatim>\<open>float\<close> nearest to one tenth, the value of the literal \<^verbatim>\<open>0.1f\<close>.\<close>

definition tenth :: fp where
  "tenth = Fin (13421773 / 134217728)"

text \<open>
  Collaborators for the concrete runs: one that always completes, one that always
  reports a failure in the value it returns, one that always throws.
\<close>

definition always :: "SubdivisionTriangleMeshBuilder \<Rightarrow> call_result" where
  "always bld = Completes"

definition reports_failure :: "SubdivisionTriangleMeshBuilder \<Rightarrow> call_result" where
  "reports_failure bld = FailureReturned"

definition throws_failure :: "SubdivisionTriangleMeshBuilder \<Rightarrow> call_result" where
  "throws_failure bld = FailureThrown"

text \<open>
  The destination the driver builds from \<open>two_faces\<close> in the arithmetic \<open>ar\<close> with the
  weight \<open>w\<close>: the three source vertices, then one vertex per edge, at the value of the
  source's expression on the edge's eight stencil points; four triangles per face.
\<close>

definition two_faces_refined :: "float_arith \<Rightarrow> fp \<Rightarrow> SubdivisionTriangleMeshBuilder" where
  "two_faces_refined ar w =
     \<lparr> dst_vertices = [vec 0 0 0, vec 2 0 0, vec 0 2 0,
                        edge_point ar w [vec 0 0 0, vec 2 0 0, vec 0 2 0, vec 0 2 0,
                                         vec 0 0 0, vec 2 0 0, vec 0 0 0, vec 2 0 0],
                        edge_point ar w [vec 2 0 0, vec 0 2 0, vec 0 0 0, vec 0 0 0,
                                         vec 2 0 0, vec 0 2 0, vec 2 0 0, vec 0 2 0],
                        edge_point ar w [vec 0 2 0, vec 0 0 0, vec 2 0 0, vec 2 0 0,
                                         vec 0 2 0, vec 0 0 0, vec 0 2 0, vec 0 0 0]],
       dst_triangles = [(0, 3, 5), (3, 1, 4), (5, 4, 2), (3, 4, 5),
                        (1, 3, 4), (3, 0, 5), (4, 5, 2), (3, 5, 4)],
       dst_vertex_map = [(EdgeKey (Some 0) (Some 2), 5), (EdgeKey (Some 1) (Some 2), 4),
                        (EdgeKey (Some 0) (Some 1), 3), (VertexKey (Some 2), 2),
                        (VertexKey (Some 1), 1), (VertexKey (Some 0), 0)],
       calls = [InsertVertex (VertexKey (Some 0)), InsertVertex (VertexKey (Some 1)),
                InsertVertex (VertexKey (Some 2)), InsertVertex (EdgeKey (Some 0) (Some 1)),
                InsertVertex (EdgeKey (Some 1) (Some 2)), InsertVertex (EdgeKey (Some 0) (Some 2)),
                InsertTriangle 0 3 5, InsertTriangle 3 1 4, InsertTriangle 5 4 2,
                InsertTriangle 3 4 5, InsertTriangle 1 3 4, InsertTriangle 3 0 5,
                InsertTriangle 4 5 2, InsertTriangle 3 5 4, Finalize, CheckInvariants] \<rparr>"


section \<open>Evaluation of the concrete meshes\<close>

lemmas mesh_defs =
  two_faces_def unit_tetrahedron_def tetrahedron_def open_triangle_def half_edge_def
  boundary_edge_def face_of_def vertex_at_def close_tetrahedron_def wide_tetrahedron_def
  far_apex_def

lemmas collaborator_defs = always_def reports_failure_def throws_failure_def

lemmas pointer_defs = deref_edge_def deref_vertex_def

lemmas driver_defs =
  butterfly_subdivision_def process_face_def compute_rule_vertices_def insert_face_triangles_def
  insert_triangle_at_def insert_triangle_def insert_vertex_def find_dst_vertex_of_def edge_key_def
  unordered_edge_def at_index_def finalize_def check_mesh_invariants_def new_builder_def
  vertex_rule_def

lemmas stencil_defs =
  stencil_def follow_def follow_link_def start_of_def end_of_def

section \<open>Rounding of the values the concrete meshes need\<close>

lemmas rounding_defs =
  round_binary_def pow2_def round_half_even_def signed_zero_def signed_inf_def Let_def

lemma ilog2_1: "ilog2 1 = 0"
  by (simp add: ilog2_def bit_length.simps)

lemma ilog2_half: "ilog2 (1 / 2) = - 1"
  by (simp add: ilog2_def bit_length.simps)

lemma ilog2_4: "ilog2 4 = 2"
  by (simp add: ilog2_def bit_length.simps)

lemma round_double_1: "round_double 1 = Fin 1"
  by (simp add: round_double_def rounding_defs ilog2_1)

lemma round_float_1: "round_float 1 = Fin 1"
  by (simp add: round_float_def rounding_defs ilog2_1)

lemma round_double_half: "round_double (1 / 2) = Fin (1 / 2)"
  by (simp add: round_double_def rounding_defs ilog2_half)

lemma round_float_4: "round_float 4 = Fin 4"
  by (simp add: round_float_def rounding_defs ilog2_4)

text \<open>The values of the run on \<open>two_faces\<close> with the weight \<open>tenth\<close>.\<close>

lemma ilog2_fifth: "ilog2 (13421773 / 67108864) = - 3"
  by (simp add: ilog2_def bit_length.simps)

lemma ilog2_four_fifths: "ilog2 (53687091 / 67108864) = - 1"
  by (simp add: ilog2_def bit_length.simps)

lemma ilog2_three_fifths: "ilog2 (20132659 / 33554432) = - 1"
  by (simp add: ilog2_def bit_length.simps)

lemma round_float_fifth: "round_float (- (13421773 / 67108864)) = Fin (- (13421773 / 67108864))"
  by (simp add: round_float_def rounding_defs ilog2_fifth)

lemma round_double_four_fifths: "round_double (53687091 / 67108864) = Fin (53687091 / 67108864)"
  by (simp add: round_double_def rounding_defs ilog2_four_fifths)

lemma round_double_three_fifths: "round_double (20132659 / 33554432) = Fin (20132659 / 33554432)"
  by (simp add: round_double_def rounding_defs ilog2_three_fifths)

lemma round_float_three_fifths: "round_float (20132659 / 33554432) = Fin (5033165 / 8388608)"
  by (simp add: round_float_def rounding_defs ilog2_three_fifths)

text \<open>The source's expression on the first edge of \<open>two_faces\<close>, x axis.\<close>

lemmas ieee_defs = ieee_def fp_mul_def fp_add_def signed_zero_def Let_def

lemma axis_two_faces_x_tenth:
  "edge_rule_axis ieee tenth [Fin 0, Fin 2, Fin 0, Fin 0, Fin 0, Fin 2, Fin 0, Fin 2] =
     Fin (5033165 / 8388608)"
  by (simp add: edge_rule_axis_def tenth_def ieee_defs round_double_1 round_float_fifth
      round_double_four_fifths round_double_three_fifths round_float_three_fifths)

text \<open>The values of the run on \<open>two_faces\<close> with the weight \<open>1/16\<close>.\<close>

lemma ilog2_eighth: "ilog2 (1 / 8) = - 3"
  by (simp add: ilog2_def bit_length.simps)

lemma ilog2_quarter: "ilog2 (1 / 4) = - 2"
  by (simp add: ilog2_def bit_length.simps)

lemma ilog2_seven_eighths: "ilog2 (7 / 8) = - 1"
  by (simp add: ilog2_def bit_length.simps)

lemma ilog2_three_quarters: "ilog2 (3 / 4) = - 1"
  by (simp add: ilog2_def bit_length.simps)

lemma round_float_eighth: "round_float (- (1 / 8)) = Fin (- (1 / 8))"
  by (simp add: round_float_def rounding_defs ilog2_eighth)

lemma round_float_quarter: "round_float (1 / 4) = Fin (1 / 4)"
  by (simp add: round_float_def rounding_defs ilog2_quarter)

lemma round_double_quarter: "round_double (1 / 4) = Fin (1 / 4)"
  by (simp add: round_double_def rounding_defs ilog2_quarter)

lemma round_float_half: "round_float (1 / 2) = Fin (1 / 2)"
  by (simp add: round_float_def rounding_defs ilog2_half)

lemma round_double_seven_eighths: "round_double (7 / 8) = Fin (7 / 8)"
  by (simp add: round_double_def rounding_defs ilog2_seven_eighths)

lemma round_double_three_quarters: "round_double (3 / 4) = Fin (3 / 4)"
  by (simp add: round_double_def rounding_defs ilog2_three_quarters)

lemma round_float_three_quarters: "round_float (3 / 4) = Fin (3 / 4)"
  by (simp add: round_float_def rounding_defs ilog2_three_quarters)

lemma axis_two_faces_x_sixteenth:
  "edge_rule_axis ieee (Fin (1 / 16)) [Fin 0, Fin 2, Fin 0, Fin 0, Fin 0, Fin 2, Fin 0, Fin 2] =
     Fin (3 / 4)"
  by (simp add: edge_rule_axis_def ieee_defs round_double_1 round_float_eighth
      round_double_seven_eighths round_double_three_quarters round_float_three_quarters)

lemma axis_two_faces_y_sixteenth:
  "edge_rule_axis ieee (Fin (1 / 16)) [Fin 0, Fin 0, Fin 2, Fin 2, Fin 0, Fin 0, Fin 0, Fin 0] =
     Fin (1 / 2)"
  by (simp add: edge_rule_axis_def ieee_defs round_float_4 round_float_quarter
      round_double_quarter round_double_half round_float_half)

lemma axis_zero:
  "edge_rule_axis ieee (Fin (1 / 16)) [Fin 0, Fin 0, Fin 0, Fin 0, Fin 0, Fin 0, Fin 0, Fin 0] =
     Fin 0"
  by (simp add: edge_rule_axis_def ieee_defs)











text \<open>The values of the run on \<open>wide_tetrahedron\<close> with the weight 1.\<close>

lemma ilog2_wide:
  "ilog2 4503599627370495 = 51" "ilog2 4503599627370496 = 52"
  "ilog2 9007199254740991 = 52" "ilog2 9007199254740992 = 53" "ilog2 9007199254740993 = 53"
  by (simp_all add: ilog2_def bit_length.simps)

lemma round_float_wide:
  "round_float 4503599627370496 = Fin 4503599627370496"
  "round_float (- 4503599627370496) = Fin (- 4503599627370496)"
  "round_float 9007199254740992 = Fin 9007199254740992"
  "round_float (- 9007199254740992) = Fin (- 9007199254740992)"
  by (simp_all add: round_float_def rounding_defs ilog2_wide)

lemma round_double_wide:
  "round_double 4503599627370496 = Fin 4503599627370496"
  "round_double 9007199254740992 = Fin 9007199254740992"
  "round_double 9007199254740993 = Fin 9007199254740992"
  "round_double (- 4503599627370495) = Fin (- 4503599627370495)"
  "round_double (- 9007199254740991) = Fin (- 9007199254740991)"
  by (simp_all add: round_double_def rounding_defs ilog2_wide)

lemma axis_wide_tetrahedron:
  "edge_rule_axis ieee (Fin 1)
     [Fin 1, Fin 1, Fin (2 ^ 52), Fin (- (2 ^ 52)), Fin (- (2 ^ 52)), Fin (- (2 ^ 52)),
      Fin (2 ^ 52), Fin (2 ^ 52)] = Fin 0"
  by (simp add: edge_rule_axis_def ieee_defs round_double_half round_double_1 round_float_wide
      round_double_wide)

lemma axis_wide_tetrahedron_twin:
  "edge_rule_axis ieee (Fin 1)
     [Fin 1, Fin 1, Fin (- (2 ^ 52)), Fin (2 ^ 52), Fin (2 ^ 52), Fin (2 ^ 52),
      Fin (- (2 ^ 52)), Fin (- (2 ^ 52))] = Fin 1"
  by (simp add: edge_rule_axis_def ieee_defs round_double_half round_double_1 round_float_1
      round_float_wide round_double_wide)

section \<open>The source's expression without rounding\<close>

lemma exact_value_of_exact [simp]: "exact_value (of_exact x) = x"
  by (cases x) simp_all

lemma edge_rule_axis_exact:
  "edge_rule_axis exact (Fin w) [c0, c1, c2, c3, c4, c5, c6, c7] =
     axis_sum (stencil_weights w) [c0, c1, c2, c3, c4, c5, c6, c7]"
  by (simp add: edge_rule_axis_def exact_def exact_op_def axis_sum_def stencil_weights_def
      split: option.splits)

lemma edge_rule_axis_exact_twin:
  "edge_rule_axis exact w [c1, c0, c3, c2, c7, c6, c5, c4] =
     edge_rule_axis exact w [c0, c1, c2, c3, c4, c5, c6, c7]"
  by (simp add: edge_rule_axis_def exact_def exact_op_def split: option.splits)


section \<open>The edge rule and the stencil of the specification\<close>

lemma deref_edge_None [simp]: "deref_edge m None = None"
  by (simp add: deref_edge_def)

lemma deref_vertex_None [simp]: "deref_vertex m None = None"
  by (simp add: deref_vertex_def)

text \<open>Where the eight paths resolve, the source's expression is evaluated on the eight points.\<close>

lemma edge_rule_of_stencil:
  "stencil m e = Some ps \<Longrightarrow> edge_rule ar m e w = Some (edge_point ar w ps)"
  apply (simp add: stencil_defs Let_def split: if_splits)
  apply (auto simp: edge_rule_def split: option.splits)
  done

text \<open>Where one of the paths does not resolve, the source dereferences a missing object.\<close>

lemma edge_rule_no_stencil: "stencil m e = None \<Longrightarrow> edge_rule ar m e w = None"
  apply (simp add: stencil_defs Let_def split: if_splits)
  apply (auto simp: edge_rule_def split: option.splits Option.bind_splits)
  done

lemma edge_rule_stencil: "edge_rule ar m e w = map_option (edge_point ar w) (stencil m e)"
  by (cases "stencil m e") (simp_all add: edge_rule_no_stencil edge_rule_of_stencil)

lemma stencil_shape:
  "stencil m e = Some ps \<Longrightarrow> \<exists>p0 p1 p2 p3 p4 p5 p6 p7. ps = [p0, p1, p2, p3, p4, p5, p6, p7]"
  by (auto simp: stencil_def Let_def split: if_splits)


text \<open>
  The stencil of the twin, in a mesh where the twin of \<open>e\<close> is the same edge walked the
  other way: the endpoints, the apexes and the second-ring points swap in pairs.
\<close>

lemma stencil_twin:
  assumes "deref_edge m e = Some ed" and "deref_edge m (twin ed) = Some td"
    and "twin td = e" and "start td = end_vertex ed" and "end_vertex td = start ed"
    and "stencil m e = Some [p0, p1, p2, p3, p4, p5, p6, p7]"
  shows "stencil m (twin ed) = Some [p1, p0, p3, p2, p7, p6, p5, p4]"
  using assms by (simp add: stencil_defs Let_def split: if_splits)

text \<open>Without rounding, the source's expression is the weighted sum of the specification.\<close>

lemma edge_point_exact:
  "edge_point exact (Fin x) [p0, p1, p2, p3, p4, p5, p6, p7] =
     weighted_sum (stencil_weights x) [p0, p1, p2, p3, p4, p5, p6, p7]"
  by (simp add: edge_point_def weighted_sum_def edge_rule_axis_exact)

lemma edge_point_exact_twin:
  "edge_point exact w [p1, p0, p3, p2, p7, p6, p5, p4] =
     edge_point exact w [p0, p1, p2, p3, p4, p5, p6, p7]"
  by (simp add: edge_point_def edge_rule_axis_exact_twin)


lemma two_faces_stencil:
  "stencil two_faces (Some 0) =
     Some [vec 0 0 0, vec 2 0 0, vec 0 2 0, vec 0 2 0, vec 0 0 0, vec 2 0 0, vec 0 0 0, vec 2 0 0]"
  by (simp add: mesh_defs pointer_defs stencil_defs)


lemma wide_tetrahedron_stencil:
  "stencil wide_tetrahedron (Some 0) =
     Some [vec 1 0 0, vec 1 0 0, vec (2 ^ 52) 0 0, vec (- (2 ^ 52)) 0 0,
           vec (- (2 ^ 52)) 0 0, vec (- (2 ^ 52)) 0 0, vec (2 ^ 52) 0 0, vec (2 ^ 52) 0 0]"
  "stencil wide_tetrahedron (Some 11) =
     Some [vec 1 0 0, vec 1 0 0, vec (- (2 ^ 52)) 0 0, vec (2 ^ 52) 0 0,
           vec (2 ^ 52) 0 0, vec (2 ^ 52) 0 0, vec (- (2 ^ 52)) 0 0, vec (- (2 ^ 52)) 0 0]"
  by (simp_all add: mesh_defs pointer_defs stencil_defs)

lemma open_triangle_stencil: "stencil open_triangle (Some 0) = None"
  by (simp add: mesh_defs pointer_defs stencil_defs)

section \<open>Claims about the stencil evaluator\<close>

text \<open>
  Claim C1, as stated, fails: the source evaluates the weighted sum in floating-point
  arithmetic and casts it to \<^verbatim>\<open>float\<close>. On the first edge of \<open>two_faces\<close> with the weight
  \<^verbatim>\<open>0.1f\<close> the x coordinate of the affine combination is \<open>1 - 4w = 20132659 / 2\<^sup>2\<^sup>5\<close>, which
  no \<^verbatim>\<open>float\<close> holds; \<open>edge_rule\<close> returns the neighbouring \<^verbatim>\<open>float\<close> \<open>5033165 / 2\<^sup>2\<^sup>3\<close>.
\<close>

theorem edge_rule_rounds_the_weighted_sum:
  "tenth = Fin (13421773 / 134217728) \<and>
   map_option vec_x (edge_rule ieee two_faces (Some 0) tenth) = Some (Fin (5033165 / 8388608)) \<and>
   map_option (\<lambda>ps. vec_x (weighted_sum (stencil_weights (13421773 / 134217728)) ps))
     (stencil two_faces (Some 0)) = Some (Fin (20132659 / 33554432))"
proof -
  have "map_option vec_x (edge_rule ieee two_faces (Some 0) tenth) = Some (Fin (5033165 / 8388608))"
    by (simp add: edge_rule_stencil two_faces_stencil edge_point_def vec_def
        axis_two_faces_x_tenth)
  moreover have "map_option (\<lambda>ps. vec_x (weighted_sum (stencil_weights (13421773 / 134217728)) ps))
     (stencil two_faces (Some 0)) = Some (Fin (20132659 / 33554432))"
    by (simp add: two_faces_stencil weighted_sum_def axis_sum_def stencil_weights_def vec_def)
  ultimately show ?thesis by (simp add: tenth_def)
qed

text \<open>
  Claim C1, amended. For every half-edge \<open>e\<close> and every weight \<open>w\<close>, \<open>edge_rule\<close> is
  defined exactly when the eight stencil points \<open>P0 .. P7\<close> resolve along the paths the
  specification names, and then returns, per axis, the value of the source's
  floating-point expression on exactly these eight positions: the products with \<open>0.5\<close>
  in \<^verbatim>\<open>double\<close>, the products with \<open>2\<close>, \<open>w\<close> and \<open>-w\<close> rounded to \<^verbatim>\<open>float\<close>, the sum from
  left to right in \<^verbatim>\<open>double\<close>, the result cast to \<^verbatim>\<open>float\<close>. Computed without rounding on a
  finite weight, that expression is the weighted sum with the weights
  \<open>1/2, 1/2, 2w, 2w, -w, -w, -w, -w\<close>, which sum to 1: an affine combination.
\<close>

theorem edge_rule_evaluates_stencil_expression:
  "edge_rule ar m e w = map_option (edge_point ar w) (stencil m e) \<and>
   (stencil m e = None \<or> map_option length (stencil m e) = Some 8) \<and>
   edge_point exact (Fin x) [p0, p1, p2, p3, p4, p5, p6, p7] =
     weighted_sum (stencil_weights x) [p0, p1, p2, p3, p4, p5, p6, p7] \<and>
   length (stencil_weights x) = 8 \<and> sum_list (stencil_weights x) = 1"
proof -
  have "stencil m e = None \<or> map_option length (stencil m e) = Some 8"
  proof (cases "stencil m e")
    case None
    then show ?thesis by simp
  next
    case (Some ps)
    then obtain p0 p1 p2 p3 p4 p5 p6 p7 where "ps = [p0, p1, p2, p3, p4, p5, p6, p7]"
      using stencil_shape by blast
    with Some show ?thesis by simp
  qed
  moreover have "sum_list (stencil_weights x) = 1" "length (stencil_weights x) = 8"
    by (simp_all add: stencil_weights_def)
  ultimately show ?thesis by (simp add: edge_rule_stencil edge_point_exact)
qed

theorem edge_rule_evaluates_stencil_expression_witness:
  "edge_rule ieee two_faces (Some 0) (Fin (1 / 16)) = Some (vec (3 / 4) (1 / 2) 0) \<and>
   edge_rule exact two_faces (Some 0) (Fin (1 / 16)) = Some (vec (3 / 4) (1 / 2) 0) \<and>
   edge_rule ieee open_triangle (Some 0) (Fin (1 / 16)) = None"
proof -
  have "edge_rule ieee two_faces (Some 0) (Fin (1 / 16)) = Some (vec (3 / 4) (1 / 2) 0)"
    using edge_rule_evaluates_stencil_expression [of ieee two_faces "Some 0" "Fin (1 / 16)"]
    by (simp add: two_faces_stencil edge_point_def vec_def axis_two_faces_x_sixteenth
        axis_two_faces_y_sixteenth axis_zero)
  moreover have "edge_rule exact two_faces (Some 0) (Fin (1 / 16)) = Some (vec (3 / 4) (1 / 2) 0)"
    using edge_rule_evaluates_stencil_expression [of exact two_faces "Some 0" "Fin (1 / 16)"
        "1 / 16" "vec 0 0 0" "vec 2 0 0" "vec 0 2 0" "vec 0 2 0" "vec 0 0 0" "vec 2 0 0"
        "vec 0 0 0" "vec 2 0 0"]
    by (simp add: two_faces_stencil weighted_sum_def axis_sum_def stencil_weights_def vec_def)
  moreover have "edge_rule ieee open_triangle (Some 0) (Fin (1 / 16)) = None"
    using edge_rule_evaluates_stencil_expression [of ieee open_triangle "Some 0" "Fin (1 / 16)"]
    by (simp add: open_triangle_stencil)
  ultimately show ?thesis by simp
qed

text \<open>
  Claim C6, as stated, fails for the arithmetic of the source: the twin's stencil lists
  the same eight positions in another order, and the \<^verbatim>\<open>double\<close> sum from left to right
  rounds differently in another order. On the first edge of \<open>wide_tetrahedron\<close> with the
  weight 1 the edge rule gives the x coordinate 0, on its twin it gives 1 (the exact
  value is 1): the two results differ by as much as the result itself.
\<close>

theorem edge_rule_differs_on_twin:
  "follow wide_tetrahedron (Some 0) [Twin] = Some 11 \<and>
   follow wide_tetrahedron (Some 11) [Twin] = Some 0 \<and>
   map_option vec_x (edge_rule ieee wide_tetrahedron (Some 0) (Fin 1)) = Some (Fin 0) \<and>
   map_option vec_x (edge_rule ieee wide_tetrahedron (Some 11) (Fin 1)) = Some (Fin 1) \<and>
   map_option vec_x (edge_rule exact wide_tetrahedron (Some 0) (Fin 1)) = Some (Fin 1)"
proof -
  have "follow wide_tetrahedron (Some 0) [Twin] = Some 11"
    "follow wide_tetrahedron (Some 11) [Twin] = Some 0"
    by (simp_all add: mesh_defs pointer_defs stencil_defs)
  moreover have "map_option vec_x (edge_rule ieee wide_tetrahedron (Some 0) (Fin 1)) = Some (Fin 0)"
    using axis_wide_tetrahedron
    by (simp add: edge_rule_stencil wide_tetrahedron_stencil edge_point_def vec_def)
  moreover have "map_option vec_x (edge_rule ieee wide_tetrahedron (Some 11) (Fin 1)) = Some (Fin 1)"
    using axis_wide_tetrahedron_twin
    by (simp add: edge_rule_stencil wide_tetrahedron_stencil edge_point_def vec_def)
  moreover have "map_option vec_x (edge_rule exact wide_tetrahedron (Some 0) (Fin 1)) = Some (Fin 1)"
    by (simp add: edge_rule_stencil wide_tetrahedron_stencil edge_point_exact weighted_sum_def
        axis_sum_def stencil_weights_def vec_def)
  ultimately show ?thesis by simp
qed

text \<open>
  Claim C6, amended. In a mesh where the twin of \<open>e\<close> is the same geometric edge with its
  endpoints relabelled (the twin's twin is \<open>e\<close>, its start is \<open>e\<close>'s end and its end is
  \<open>e\<close>'s start), and the stencil \<open>P0 .. P7\<close> of \<open>e\<close> resolves, the edge rule on the twin
  is defined and evaluates the same floating-point expression on the stencil with the
  roles swapped in pairs, \<open>P1, P0, P3, P2, P7, P6, P5, P4\<close>, for every weight. Computed
  without rounding the two results are equal; in the arithmetic of the source they are
  the values of two sums of the same terms in different orders.
\<close>

theorem edge_rule_twin_swaps_stencil:
  assumes "deref_edge m e = Some ed" and "deref_edge m (twin ed) = Some td"
    and "twin td = e" and "start td = end_vertex ed" and "end_vertex td = start ed"
    and "stencil m e = Some [p0, p1, p2, p3, p4, p5, p6, p7]"
  shows "edge_rule ar m e w = Some (edge_point ar w [p0, p1, p2, p3, p4, p5, p6, p7]) \<and>
         edge_rule ar m (twin ed) w = Some (edge_point ar w [p1, p0, p3, p2, p7, p6, p5, p4]) \<and>
         edge_rule exact m (twin ed) w = edge_rule exact m e w"
proof -
  have t: "stencil m (twin ed) = Some [p1, p0, p3, p2, p7, p6, p5, p4]"
    using assms by (rule stencil_twin)
  show ?thesis
    by (simp add: edge_rule_stencil t assms(6) edge_point_exact_twin)
qed

theorem edge_rule_twin_swaps_stencil_witness:
  "edge_rule ieee two_faces (Some 0) (Fin (1 / 16)) =
     Some (edge_point ieee (Fin (1 / 16))
       [vec 0 0 0, vec 2 0 0, vec 0 2 0, vec 0 2 0, vec 0 0 0, vec 2 0 0, vec 0 0 0, vec 2 0 0]) \<and>
   edge_rule ieee two_faces (Some 3) (Fin (1 / 16)) =
     Some (edge_point ieee (Fin (1 / 16))
       [vec 2 0 0, vec 0 0 0, vec 0 2 0, vec 0 2 0, vec 2 0 0, vec 0 0 0, vec 2 0 0, vec 0 0 0]) \<and>
   edge_rule exact two_faces (Some 3) (Fin (1 / 16)) =
     edge_rule exact two_faces (Some 0) (Fin (1 / 16))"
proof -
  have e: "deref_edge two_faces (Some 0) = Some (half_edge 0 1 1 2 3)"
    and t: "deref_edge two_faces (twin (half_edge 0 1 1 2 3)) = Some (half_edge 1 0 4 5 0)"
    by (simp_all add: mesh_defs pointer_defs)
  have tw: "twin (half_edge 1 0 4 5 0) = Some 0"
    and s: "start (half_edge 1 0 4 5 0) = end_vertex (half_edge 0 1 1 2 3)"
    and d: "end_vertex (half_edge 1 0 4 5 0) = start (half_edge 0 1 1 2 3)"
    by (simp_all add: half_edge_def)
  from edge_rule_twin_swaps_stencil [OF e t tw s d two_faces_stencil, of ieee "Fin (1 / 16)"]
  show ?thesis by (simp add: half_edge_def)
qed




section \<open>The loops advance the builder by driver steps\<close>

lemma vertex_loop_steps:
  "driver_steps ar m w a bld \<Longrightarrow> vertex_loop m vs bld vrv = Returns (vrv', bld') \<Longrightarrow>
   driver_steps ar m w a bld'"
proof (induction vs arbitrary: bld vrv)
  case Nil
  then show ?case by simp
next
  case (Cons v vs)
  show ?case
  proof (cases "find_dst_vertex_of bld (VertexKey v)")
    case (Some u)
    with Cons show ?thesis by simp
  next
    case None
    with Cons.prems obtain pos where pos: "vertex_rule m v = Some pos"
      by (cases "vertex_rule m v") simp_all
    let ?b = "snd (insert_vertex bld pos (VertexKey v))"
    have "driver_steps ar m w a ?b"
      using Cons.prems(1) None pos by (rule vertex_step)
    moreover have "vertex_loop m vs ?b (vrv @ [fst (insert_vertex bld pos (VertexKey v))]) = Returns (vrv', bld')"
      using Cons.prems(2) None pos by (simp split: prod.splits)
    ultimately show ?thesis by (rule Cons.IH)
  qed
qed

lemma edge_loop_steps:
  "driver_steps ar m w a bld \<Longrightarrow> edge_loop ar m w es bld erv = Returns (erv', bld') \<Longrightarrow>
   driver_steps ar m w a bld'"
proof (induction es arbitrary: bld erv)
  case Nil
  then show ?case by simp
next
  case (Cons e es)
  from Cons.prems(2) obtain k where k: "edge_key m e = Some k"
    by (cases "edge_key m e") simp_all
  show ?case
  proof (cases "find_dst_vertex_of bld k")
    case (Some u)
    with Cons k show ?thesis by simp
  next
    case None
    with Cons.prems k obtain pos where pos: "edge_rule ar m e w = Some pos"
      by (cases "edge_rule ar m e w") simp_all
    let ?b = "snd (insert_vertex bld pos k)"
    have "driver_steps ar m w a ?b"
      using Cons.prems(1) k None pos by (rule edge_step)
    moreover have "edge_loop ar m w es ?b (erv @ [fst (insert_vertex bld pos k)]) = Returns (erv', bld')"
      using Cons.prems(2) k None pos by (simp split: prod.splits)
    ultimately show ?thesis by (rule Cons.IH)
  qed
qed

lemma bind_outcome_Returns:
  "bind_outcome x f = Returns r \<longleftrightarrow> (\<exists>a. x = Returns a \<and> f a = Returns r)"
  by (cases x) simp_all

lemma insert_triangle_at_Returns:
  "insert_triangle_at bld a b c = Returns bld' \<longleftrightarrow>
   (\<exists>a' b' c'. a = Some a' \<and> b = Some b' \<and> c = Some c' \<and> bld' = insert_triangle bld a' b' c')"
  by (auto simp: insert_triangle_at_def split: option.splits)

lemma compute_rule_vertices_Returns:
  "compute_rule_vertices ar m w bld face = Returns (vrv, erv, bld2) \<longleftrightarrow>
   (\<exists>e0 e1 bld1. deref_edge m (edge face) = Some e0 \<and> deref_edge m (next_edge e0) = Some e1 \<and>
      vertex_loop m [start e0, end_vertex e0, end_vertex e1] bld [] = Returns (vrv, bld1) \<and>
      edge_loop ar m w [edge face, next_edge e0, prev e0] bld1 [] = Returns (erv, bld2))"
  by (auto simp: compute_rule_vertices_def bind_outcome_Returns split: option.splits)

lemma compute_rule_vertices_steps:
  assumes "driver_steps ar m w a bld" and "compute_rule_vertices ar m w bld face = Returns (vrv, erv, bld')"
  shows "driver_steps ar m w a bld'"
proof -
  from assms(2) obtain e0 e1 :: Edge and bld1
    where v: "vertex_loop m [start e0, end_vertex e0, end_vertex e1] bld [] = Returns (vrv, bld1)"
      and e: "edge_loop ar m w [edge face, next_edge e0, prev e0] bld1 [] = Returns (erv, bld')"
    unfolding compute_rule_vertices_Returns by blast
  from assms(1) v have "driver_steps ar m w a bld1" by (rule vertex_loop_steps)
  then show ?thesis using e by (rule edge_loop_steps)
qed

lemma insert_face_triangles_steps:
  assumes "driver_steps ar m w a bld" and "insert_face_triangles vrv erv bld = Returns bld'"
  shows "driver_steps ar m w a bld'"
  using assms
  by (auto simp: insert_face_triangles_def bind_outcome_Returns insert_triangle_at_Returns
      intro!: triangle_step)

lemma process_face_Returns:
  "process_face ar m w bld face = Returns bld' \<longleftrightarrow>
   (\<exists>vrv erv b. compute_rule_vertices ar m w bld face = Returns (vrv, erv, b) \<and>
      insert_face_triangles vrv erv b = Returns bld')"
  by (auto simp: process_face_def bind_outcome_Returns)

lemma process_face_steps:
  assumes "driver_steps ar m w a bld" and "process_face ar m w bld face = Returns bld'"
  shows "driver_steps ar m w a bld'"
  using assms
  by (auto simp: process_face_Returns dest: compute_rule_vertices_steps insert_face_triangles_steps)

lemma face_loop_steps:
  "driver_steps ar m w a bld \<Longrightarrow> face_loop ar m w fs bld = Returns bld' \<Longrightarrow> driver_steps ar m w a bld'"
proof (induction fs arbitrary: bld)
  case Nil
  then show ?case by simp
next
  case (Cons face fs)
  from Cons.prems(2) obtain b where b: "process_face ar m w bld face = Returns b"
    and rest: "face_loop ar m w fs b = Returns bld'"
    by (cases "process_face ar m w bld face") simp_all
  from Cons.prems(1) b have "driver_steps ar m w a b" by (rule process_face_steps)
  then show ?case using rest by (rule Cons.IH)
qed

section \<open>What the driver steps preserve\<close>

lemma find_dst_vertex_of_insert_vertex:
  "find_dst_vertex_of (snd (insert_vertex b pos k)) k' = (if k' = k then Some (length (dst_vertices b)) else find_dst_vertex_of b k')"
  by (simp add: find_dst_vertex_of_def insert_vertex_def Let_def)

lemma find_dst_vertex_of_insert_triangle [simp]:
  "find_dst_vertex_of (insert_triangle b a1 a2 a3) k = find_dst_vertex_of b k"
  by (simp add: find_dst_vertex_of_def insert_triangle_def)

lemma steps_lookup_stable:
  "driver_steps ar m w a b \<Longrightarrow> find_dst_vertex_of a k = Some u \<Longrightarrow> find_dst_vertex_of b k = Some u"
  by (induction rule: driver_steps.induct) (auto simp: find_dst_vertex_of_insert_vertex)

lemma created_keys_append: "created_keys (xs @ ys) = created_keys xs @ created_keys ys"
  by (induction xs rule: created_keys.induct) simp_all

lemma steps_keys:
  "driver_steps ar m w new_builder b \<Longrightarrow>
   distinct (map fst (dst_vertex_map b)) \<and>
   map snd (dst_vertex_map b) = rev [0..<length (dst_vertices b)] \<and>
   created_keys (calls b) = rev (map fst (dst_vertex_map b))"
proof (induction rule: driver_steps.induct)
  case no_step
  show ?case by (simp add: new_builder_def)
next
  case (vertex_step b v pos)
  from vertex_step.hyps(2) have "VertexKey v \<notin> fst ` set (dst_vertex_map b)"
    by (simp add: find_dst_vertex_of_def map_of_eq_None_iff)
  with vertex_step.IH show ?case
    by (simp add: insert_vertex_def Let_def created_keys_append)
next
  case (edge_step b e k pos)
  from edge_step.hyps(3) have "k \<notin> fst ` set (dst_vertex_map b)"
    by (simp add: find_dst_vertex_of_def map_of_eq_None_iff)
  with edge_step.IH show ?case
    by (simp add: insert_vertex_def Let_def created_keys_append)
next
  case (triangle_step b a1 a2 a3)
  then show ?case by (simp add: insert_triangle_def created_keys_append)
qed


lemma edge_key_is_EdgeKey: "edge_key m e = Some k \<Longrightarrow> \<exists>x y. k = EdgeKey x y"
  by (auto simp: edge_key_def unordered_edge_def split: option.splits if_splits)

lemma steps_positions:
  "driver_steps ar m w new_builder b \<Longrightarrow> (k, i) \<in> set (dst_vertex_map b) \<Longrightarrow>
   i < length (dst_vertices b) \<and> placed ar m w k (dst_vertices b ! i)"
proof (induction arbitrary: k i rule: driver_steps.induct)
  case no_step
  then show ?case by (simp add: new_builder_def)
next
  case (vertex_step b v pos)
  from vertex_step.prems consider "k = VertexKey v" "i = length (dst_vertices b)"
    | "(k, i) \<in> set (dst_vertex_map b)"
    by (auto simp: insert_vertex_def Let_def)
  then show ?case
  proof cases
    case 1
    with vertex_step.hyps(3) show ?thesis
      by (simp add: insert_vertex_def Let_def placed_def)
  next
    case 2
    from vertex_step.IH [OF 2] show ?thesis
      by (simp add: insert_vertex_def Let_def nth_append)
  qed
next
  case (edge_step b e k' pos)
  from edge_step.prems consider "k = k'" "i = length (dst_vertices b)"
    | "(k, i) \<in> set (dst_vertex_map b)"
    by (auto simp: insert_vertex_def Let_def)
  then show ?case
  proof cases
    case 1
    from edge_step.hyps(2) obtain x y where "k' = EdgeKey x y"
      using edge_key_is_EdgeKey by blast
    with 1 edge_step.hyps(2,4) show ?thesis
      by (auto simp: insert_vertex_def Let_def placed_def)
  next
    case 2
    from edge_step.IH [OF 2] show ?thesis
      by (simp add: insert_vertex_def Let_def nth_append)
  qed
next
  case (triangle_step b a1 a2 a3)
  from triangle_step.prems have "(k, i) \<in> set (dst_vertex_map b)"
    by (simp add: insert_triangle_def)
  from triangle_step.IH [OF this] show ?case by (simp add: insert_triangle_def)
qed

section \<open>The rule vertices of a face are its keys' counterparts\<close>

lemma insert_vertex_triangles [simp]:
  "dst_triangles (snd (insert_vertex b pos k)) = dst_triangles b"
  by (simp add: insert_vertex_def Let_def)

lemma vertex_loop_result:
  "vertex_loop m vs bld vrv = Returns (vrv', bld') \<Longrightarrow>
   dst_triangles bld' = dst_triangles bld \<and>
   (\<exists>us. vrv' = vrv @ us \<and> list_all2 (\<lambda>v u. find_dst_vertex_of bld' (VertexKey v) = Some u) vs us)"
proof (induction vs arbitrary: bld vrv)
  case Nil
  then show ?case by simp
next
  case (Cons v vs)
  have "\<exists>b u. find_dst_vertex_of b (VertexKey v) = Some u \<and> dst_triangles b = dst_triangles bld \<and>
          vertex_loop m vs b (vrv @ [u]) = Returns (vrv', bld')"
  proof (cases "find_dst_vertex_of bld (VertexKey v)")
    case (Some u)
    with Cons.prems show ?thesis by auto
  next
    case None
    with Cons.prems obtain pos where pos: "vertex_rule m v = Some pos"
      by (cases "vertex_rule m v") simp_all
    let ?r = "insert_vertex bld pos (VertexKey v)"
    have "vertex_loop m vs (snd ?r) (vrv @ [fst ?r]) = Returns (vrv', bld')"
      using Cons.prems None pos by (simp split: prod.splits)
    moreover have "find_dst_vertex_of (snd ?r) (VertexKey v) = Some (fst ?r)"
      by (simp add: find_dst_vertex_of_insert_vertex) (simp add: insert_vertex_def Let_def)
    ultimately show ?thesis by (intro exI [of _ "snd ?r"] exI [of _ "fst ?r"]) simp
  qed
  then obtain b u where u: "find_dst_vertex_of b (VertexKey v) = Some u"
    and tri: "dst_triangles b = dst_triangles bld"
    and rest: "vertex_loop m vs b (vrv @ [u]) = Returns (vrv', bld')"
    by blast
  from Cons.IH [OF rest] obtain us where us: "vrv' = (vrv @ [u]) @ us"
    "list_all2 (\<lambda>v u. find_dst_vertex_of bld' (VertexKey v) = Some u) vs us"
    and tri': "dst_triangles bld' = dst_triangles b"
    by blast
  have "driver_steps ieee m (Fin 0) b bld'"
    using no_step rest by (rule vertex_loop_steps)
  then have "find_dst_vertex_of bld' (VertexKey v) = Some u"
    using u by (rule steps_lookup_stable)
  with us tri tri' show ?case
    by (intro conjI exI [of _ "u # us"]) simp_all
qed

lemma edge_loop_result:
  "edge_loop ar m w es bld erv = Returns (erv', bld') \<Longrightarrow>
   dst_triangles bld' = dst_triangles bld \<and>
   (\<exists>us. erv' = erv @ us \<and>
      list_all2 (\<lambda>e u. \<exists>k. edge_key m e = Some k \<and> find_dst_vertex_of bld' k = Some u) es us)"
proof (induction es arbitrary: bld erv)
  case Nil
  then show ?case by simp
next
  case (Cons e es)
  from Cons.prems obtain k where k: "edge_key m e = Some k"
    by (cases "edge_key m e") simp_all
  have "\<exists>b u. find_dst_vertex_of b k = Some u \<and> dst_triangles b = dst_triangles bld \<and>
          edge_loop ar m w es b (erv @ [u]) = Returns (erv', bld')"
  proof (cases "find_dst_vertex_of bld k")
    case (Some u)
    with Cons.prems k show ?thesis by auto
  next
    case None
    with Cons.prems k obtain pos where pos: "edge_rule ar m e w = Some pos"
      by (cases "edge_rule ar m e w") simp_all
    let ?r = "insert_vertex bld pos k"
    have "edge_loop ar m w es (snd ?r) (erv @ [fst ?r]) = Returns (erv', bld')"
      using Cons.prems k None pos by (simp split: prod.splits)
    moreover have "find_dst_vertex_of (snd ?r) k = Some (fst ?r)"
      by (simp add: find_dst_vertex_of_insert_vertex) (simp add: insert_vertex_def Let_def)
    ultimately show ?thesis by (intro exI [of _ "snd ?r"] exI [of _ "fst ?r"]) simp
  qed
  then obtain b u where u: "find_dst_vertex_of b k = Some u"
    and tri: "dst_triangles b = dst_triangles bld"
    and rest: "edge_loop ar m w es b (erv @ [u]) = Returns (erv', bld')"
    by blast
  from Cons.IH [OF rest] obtain us where us: "erv' = (erv @ [u]) @ us"
    "list_all2 (\<lambda>e u. \<exists>k. edge_key m e = Some k \<and> find_dst_vertex_of bld' k = Some u) es us"
    and tri': "dst_triangles bld' = dst_triangles b"
    by blast
  have "driver_steps ar m w b bld'"
    using no_step rest by (rule edge_loop_steps)
  then have "find_dst_vertex_of bld' k = Some u"
    using u by (rule steps_lookup_stable)
  with us tri tri' k show ?case
    by (intro conjI exI [of _ "u # us"]) simp_all
qed

lemma list_all2_three:
  "list_all2 P [a, b, c] us \<longleftrightarrow> (\<exists>x y z. us = [x, y, z] \<and> P a x \<and> P b y \<and> P c z)"
  by (auto simp: list_all2_Cons1)

lemma process_face_children:
  assumes "process_face ar m w bld face = Returns bld'"
  shows "\<exists>ts. child_triangles m bld' face = Some ts \<and> dst_triangles bld' = dst_triangles bld @ ts \<and>
           length ts = 4"
proof -
  from assms obtain vrv erv b2 where c: "compute_rule_vertices ar m w bld face = Returns (vrv, erv, b2)"
    and t: "insert_face_triangles vrv erv b2 = Returns bld'"
    unfolding process_face_Returns by blast
  from c obtain e0 e1 :: Edge and b1 where e0: "deref_edge m (edge face) = Some e0"
    and e1: "deref_edge m (next_edge e0) = Some e1"
    and vl: "vertex_loop m [start e0, end_vertex e0, end_vertex e1] bld [] = Returns (vrv, b1)"
    and el: "edge_loop ar m w [edge face, next_edge e0, prev e0] b1 [] = Returns (erv, b2)"
    unfolding compute_rule_vertices_Returns by blast
  from vertex_loop_result [OF vl] obtain v0 v1 v2 where vrv: "vrv = [v0, v1, v2]"
    and fv: "find_dst_vertex_of b1 (VertexKey (start e0)) = Some v0"
      "find_dst_vertex_of b1 (VertexKey (end_vertex e0)) = Some v1"
      "find_dst_vertex_of b1 (VertexKey (end_vertex e1)) = Some v2"
    and t1: "dst_triangles b1 = dst_triangles bld"
    by (auto simp: list_all2_three)
  from edge_loop_result [OF el] obtain m0 m1 m2 k0 k1 k2 where erv: "erv = [m0, m1, m2]"
    and ks: "edge_key m (edge face) = Some k0" "edge_key m (next_edge e0) = Some k1"
      "edge_key m (prev e0) = Some k2"
    and fe: "find_dst_vertex_of b2 k0 = Some m0" "find_dst_vertex_of b2 k1 = Some m1"
      "find_dst_vertex_of b2 k2 = Some m2"
    and t2: "dst_triangles b2 = dst_triangles b1"
    by (auto simp: list_all2_three)
  have "driver_steps ar m w b1 b2" using no_step el by (rule edge_loop_steps)
  from fv [THEN steps_lookup_stable [OF this]]
  have fv2: "find_dst_vertex_of b2 (VertexKey (start e0)) = Some v0"
      "find_dst_vertex_of b2 (VertexKey (end_vertex e0)) = Some v1"
      "find_dst_vertex_of b2 (VertexKey (end_vertex e1)) = Some v2" .
  from t have bld': "bld' = insert_triangle (insert_triangle (insert_triangle (insert_triangle b2
      v0 m0 m2) m0 v1 m1) m2 m1 v2) m0 m1 m2"
    by (simp add: insert_face_triangles_def vrv erv at_index_def insert_triangle_at_def)
  have "child_triangles m bld' face = Some [(v0, m0, m2), (m0, v1, m1), (m2, m1, v2), (m0, m1, m2)]"
    by (simp add: child_triangles_def bld' e0 e1 ks fv2 fe)
  moreover have "dst_triangles bld' =
      dst_triangles bld @ [(v0, m0, m2), (m0, v1, m1), (m2, m1, v2), (m0, m1, m2)]"
    by (simp add: bld' insert_triangle_def t1 t2)
  ultimately show ?thesis by simp
qed

lemma child_triangles_stable:
  assumes "driver_steps ar m w b b'" and "child_triangles m b face = Some ts"
  shows "child_triangles m b' face = Some ts"
  using assms(2) steps_lookup_stable [OF assms(1)]
  by (auto simp: child_triangles_def split: Option.bind_splits)

lemma face_loop_children:
  "face_loop ar m w fs bld = Returns dst \<Longrightarrow>
   \<exists>tss. map (child_triangles m dst) fs = map Some tss \<and>
     dst_triangles dst = dst_triangles bld @ concat tss \<and> length (concat tss) = 4 * length fs"
proof (induction fs arbitrary: bld)
  case Nil
  then show ?case by simp
next
  case (Cons face fs)
  from Cons.prems obtain b where b: "process_face ar m w bld face = Returns b"
    and rest: "face_loop ar m w fs b = Returns dst"
    by (cases "process_face ar m w bld face") simp_all
  from process_face_children [OF b] obtain ts where ts: "child_triangles m b face = Some ts"
    "dst_triangles b = dst_triangles bld @ ts" "length ts = 4"
    by blast
  from Cons.IH [OF rest] obtain tss where tss: "map (child_triangles m dst) fs = map Some tss"
    "dst_triangles dst = dst_triangles b @ concat tss" "length (concat tss) = 4 * length fs"
    by blast
  have "driver_steps ar m w b dst" using no_step rest by (rule face_loop_steps)
  then have "child_triangles m dst face = Some ts" using ts(1) by (rule child_triangles_stable)
  with ts tss show ?case
    by (intro exI [of _ "ts # tss"]) simp
qed

section \<open>The driver throws nothing of its own\<close>

lemma vertex_loop_no_throw: "vertex_loop m vs bld vrv \<noteq> Throws x b"
  by (induction vs arbitrary: bld vrv) (auto split: option.splits prod.splits)

lemma edge_loop_no_throw: "edge_loop ar m w es bld erv \<noteq> Throws x b"
  by (induction es arbitrary: bld erv) (auto split: option.splits prod.splits)

lemma vertex_loop_length:
  assumes "vertex_loop m vs bld vrv = Returns (vrv', bld')"
  shows "length vrv' = length vrv + length vs"
  using vertex_loop_result [OF assms] by (auto dest: list_all2_lengthD)

lemma edge_loop_length:
  assumes "edge_loop ar m w es bld erv = Returns (erv', bld')"
  shows "length erv' = length erv + length es"
  using edge_loop_result [OF assms] by (auto dest: list_all2_lengthD)

lemma bind_outcome_Throws:
  "bind_outcome r f = Throws x b \<longleftrightarrow> r = Throws x b \<or> (\<exists>a. r = Returns a \<and> f a = Throws x b)"
  by (cases r) auto

lemma compute_rule_vertices_no_throw: "compute_rule_vertices ar m w bld face \<noteq> Throws x b"
  by (auto simp: compute_rule_vertices_def bind_outcome_Throws vertex_loop_no_throw edge_loop_no_throw
      simp del: vertex_loop.simps edge_loop.simps split: option.splits)

lemma compute_rule_vertices_lengths:
  assumes "compute_rule_vertices ar m w bld face = Returns (vrv, erv, bld')"
  shows "length vrv = 3 \<and> length erv = 3"
proof -
  from assms obtain e0 e1 :: Edge and b1
    where v: "vertex_loop m [start e0, end_vertex e0, end_vertex e1] bld [] = Returns (vrv, b1)"
      and e: "edge_loop ar m w [edge face, next_edge e0, prev e0] b1 [] = Returns (erv, bld')"
    unfolding compute_rule_vertices_Returns by blast
  from vertex_loop_length [OF v] edge_loop_length [OF e] show ?thesis by simp
qed

lemma insert_face_triangles_in_range:
  assumes "length vrv = 3" and "length erv = 3"
  shows "\<exists>dst. insert_face_triangles vrv erv bld = Returns dst"
  using assms by (simp add: insert_face_triangles_def at_index_def insert_triangle_at_def)

lemma process_face_no_throw: "process_face ar m w bld face \<noteq> Throws x b"
proof
  assume "process_face ar m w bld face = Throws x b"
  then obtain vrv erv b2 where c: "compute_rule_vertices ar m w bld face = Returns (vrv, erv, b2)"
    and t: "insert_face_triangles vrv erv b2 = Throws x b"
    by (auto simp: process_face_def bind_outcome_Throws compute_rule_vertices_no_throw)
  from compute_rule_vertices_lengths [OF c] have "\<exists>dst. insert_face_triangles vrv erv b2 = Returns dst"
    by (intro insert_face_triangles_in_range) simp_all
  with t show False by simp
qed

lemma face_loop_no_throw: "face_loop ar m w fs bld \<noteq> Throws x b"
  by (induction fs arbitrary: bld) (auto simp: process_face_no_throw split: outcome.splits)

lemma butterfly_subdivision_run:
  assumes "butterfly_subdivision ar pairs holds m w \<noteq> Undefined"
  shows "\<exists>bld. face_loop ar m w (faces m) new_builder = Returns bld \<and>
           butterfly_subdivision ar pairs holds m w =
             (if pairs bld = FailureThrown
              then Throws NonManifoldResult (bld \<lparr> calls := calls bld @ [Finalize] \<rparr>)
              else if holds (bld \<lparr> calls := calls bld @ [Finalize] \<rparr>) = FailureThrown
              then Throws InvariantViolation (bld \<lparr> calls := calls bld @ [Finalize, CheckInvariants] \<rparr>)
              else Returns (bld \<lparr> calls := calls bld @ [Finalize, CheckInvariants] \<rparr>))"
proof (cases "face_loop ar m w (faces m) new_builder")
  case (Returns bld)
  then show ?thesis
    by (simp add: butterfly_subdivision_def finalize_def check_mesh_invariants_def Let_def
        split: call_result.splits)
next
  case (Throws x b)
  then show ?thesis by (simp add: face_loop_no_throw)
next
  case Undefined
  with assms show ?thesis by (simp add: butterfly_subdivision_def)
qed

lemma butterfly_subdivision_destination:
  assumes "destination (butterfly_subdivision ar pairs holds m w) = Some dst"
  shows "\<exists>bld. face_loop ar m w (faces m) new_builder = Returns bld \<and>
           dst_vertices dst = dst_vertices bld \<and> dst_triangles dst = dst_triangles bld \<and>
           dst_vertex_map dst = dst_vertex_map bld \<and>
           (calls dst = calls bld @ [Finalize] \<or> calls dst = calls bld @ [Finalize, CheckInvariants])"
proof -
  from assms have "butterfly_subdivision ar pairs holds m w \<noteq> Undefined" by auto
  from butterfly_subdivision_run [OF this] obtain bld
    where bld: "face_loop ar m w (faces m) new_builder = Returns bld"
      and run: "butterfly_subdivision ar pairs holds m w =
             (if pairs bld = FailureThrown
              then Throws NonManifoldResult (bld \<lparr> calls := calls bld @ [Finalize] \<rparr>)
              else if holds (bld \<lparr> calls := calls bld @ [Finalize] \<rparr>) = FailureThrown
              then Throws InvariantViolation (bld \<lparr> calls := calls bld @ [Finalize, CheckInvariants] \<rparr>)
              else Returns (bld \<lparr> calls := calls bld @ [Finalize, CheckInvariants] \<rparr>))"
    by blast
  from assms run have "dst = bld \<lparr> calls := calls bld @ [Finalize] \<rparr> \<or>
      dst = bld \<lparr> calls := calls bld @ [Finalize, CheckInvariants] \<rparr>"
    by (auto split: if_splits)
  with bld show ?thesis by auto
qed

section \<open>Runs on meshes with resolvable neighbourhoods are defined\<close>

lemma vertex_loop_defined:
  "list_all (\<lambda>v. deref_vertex m v \<noteq> None) vs \<Longrightarrow> vertex_loop m vs bld vrv \<noteq> Undefined"
  by (induction vs arbitrary: bld vrv)
    (auto simp: vertex_rule_def split: option.splits prod.splits)

lemma stencil_edge_key: "stencil m e = Some ps \<Longrightarrow> \<exists>k. edge_key m e = Some k"
  by (auto simp: stencil_defs edge_key_def Let_def split: option.splits if_splits)

lemma edge_loop_defined:
  "list_all (\<lambda>e. stencil m e \<noteq> None) es \<Longrightarrow> edge_loop ar m w es bld erv \<noteq> Undefined"
proof (induction es arbitrary: bld erv)
  case Nil
  show ?case by simp
next
  case (Cons e es)
  then obtain ps where ps: "stencil m e = Some ps" by auto
  then obtain k where k: "edge_key m e = Some k" using stencil_edge_key by blast
  from ps have r: "edge_rule ar m e w = Some (edge_point ar w ps)" by (rule edge_rule_of_stencil)
  from Cons.prems have rest: "list_all (\<lambda>e. stencil m e \<noteq> None) es" by simp
  show ?case
    using Cons.IH [OF rest] by (simp add: k r split: option.splits prod.splits)
qed

lemma face_ok_links:
  assumes "face_ok m face"
  shows "\<exists>e0 e1. deref_edge m (edge face) = Some e0 \<and> deref_edge m (next_edge e0) = Some e1 \<and>
           list_all (\<lambda>v. deref_vertex m v \<noteq> None) [start e0, end_vertex e0, end_vertex e1] \<and>
           list_all (\<lambda>e. stencil m e \<noteq> None) [edge face, next_edge e0, prev e0]"
proof -
  from assms obtain ps where ps: "stencil m (edge face) = Some ps"
    by (auto simp: face_ok_def)
  then obtain e0 e1 where e: "deref_edge m (edge face) = Some e0"
      "deref_edge m (next_edge e0) = Some e1"
    and v: "deref_vertex m (start e0) \<noteq> None" "deref_vertex m (end_vertex e0) \<noteq> None"
      "deref_vertex m (end_vertex e1) \<noteq> None"
    by (auto simp: stencil_defs Let_def split: option.splits if_splits)
  from assms e have "stencil m (next_edge e0) \<noteq> None" "stencil m (prev e0) \<noteq> None"
    by (simp_all add: face_ok_def follow_def follow_link_def)
  with e v ps show ?thesis by simp
qed

lemma compute_rule_vertices_defined:
  assumes "face_ok m face"
  shows "compute_rule_vertices ar m w bld face \<noteq> Undefined"
proof -
  from face_ok_links [OF assms] obtain e0 e1 :: Edge
    where e: "deref_edge m (edge face) = Some e0" "deref_edge m (next_edge e0) = Some e1"
      and v: "list_all (\<lambda>v. deref_vertex m v \<noteq> None) [start e0, end_vertex e0, end_vertex e1]"
      and s: "list_all (\<lambda>e. stencil m e \<noteq> None) [edge face, next_edge e0, prev e0]"
    by blast
  let ?vl = "vertex_loop m [start e0, end_vertex e0, end_vertex e1] bld []"
  from vertex_loop_defined [OF v, of bld "[]"] vertex_loop_no_throw [of m _ bld "[]"]
  obtain vrv b1 where vl: "?vl = Returns (vrv, b1)"
    by (cases ?vl) (auto simp del: vertex_loop.simps)
  let ?el = "edge_loop ar m w [edge face, next_edge e0, prev e0] b1 []"
  from edge_loop_defined [OF s, of ar w b1 "[]"] edge_loop_no_throw [of ar m w _ b1 "[]"]
  obtain erv b2 where el: "?el = Returns (erv, b2)"
    by (cases ?el) (auto simp del: edge_loop.simps)
  have "compute_rule_vertices ar m w bld face = Returns (vrv, erv, b2)"
    unfolding compute_rule_vertices_Returns using e vl el by blast
  then show ?thesis by simp
qed

lemma process_face_defined:
  assumes "face_ok m face"
  shows "\<exists>bld'. process_face ar m w bld face = Returns bld'"
proof -
  let ?c = "compute_rule_vertices ar m w bld face"
  from compute_rule_vertices_defined [OF assms, of ar w bld]
    compute_rule_vertices_no_throw [of ar m w bld face]
  obtain vrv erv b2 where c: "?c = Returns (vrv, erv, b2)"
    by (cases ?c) auto
  from compute_rule_vertices_lengths [OF c]
  obtain dst where "insert_face_triangles vrv erv b2 = Returns dst"
    using insert_face_triangles_in_range by blast
  with c show ?thesis unfolding process_face_Returns by blast
qed

lemma face_loop_defined:
  "list_all (face_ok m) fs \<Longrightarrow> \<exists>bld'. face_loop ar m w fs bld = Returns bld'"
proof (induction fs arbitrary: bld)
  case Nil
  show ?case by simp
next
  case (Cons face fs)
  then obtain b where b: "process_face ar m w bld face = Returns b"
    using process_face_defined by fastforce
  from Cons obtain bld' where "face_loop ar m w fs b = Returns bld'" by fastforce
  with b show ?case by simp
qed

lemma butterfly_subdivision_defined:
  assumes "list_all (face_ok m) (faces m)"
  shows "\<exists>dst. destination (butterfly_subdivision ar pairs holds m w) = Some dst"
proof -
  from face_loop_defined [OF assms] obtain bld
    where "face_loop ar m w (faces m) new_builder = Returns bld"
    by blast
  then show ?thesis
    by (simp add: butterfly_subdivision_def finalize_def check_mesh_invariants_def Let_def
        split: call_result.splits)
qed

section \<open>The concrete runs\<close>

lemma two_faces_ok: "list_all (face_ok two_faces) (faces two_faces)"
  by (simp add: face_ok_def stencil_defs mesh_defs pointer_defs)

lemma two_faces_face_loop:
  "face_loop ar two_faces w (faces two_faces) new_builder =
     Returns ((two_faces_refined ar w) \<lparr> calls := butlast (butlast (calls (two_faces_refined ar w))) \<rparr>)"
  by (simp add: driver_defs edge_rule_def mesh_defs pointer_defs two_faces_refined_def Let_def)

lemma two_faces_run:
  "butterfly_subdivision ar always always two_faces w = Returns (two_faces_refined ar w)"
  by (simp add: butterfly_subdivision_def two_faces_face_loop finalize_def
      check_mesh_invariants_def collaborator_defs two_faces_refined_def)


section \<open>Claims about the refinement driver\<close>

lemma unordered_edge_commute: "unordered_edge a b = unordered_edge b a"
  by (auto simp: unordered_edge_def)

lemma edge_key_twin:
  assumes "deref_edge m e = Some ed" and "deref_edge m (twin ed) = Some td"
    and "start td = end_vertex ed" and "end_vertex td = start ed"
  shows "edge_key m (twin ed) = edge_key m e"
  using assms by (simp add: edge_key_def unordered_edge_commute)

lemma child_triangles_length: "child_triangles m dst face = Some ts \<Longrightarrow> length ts = 4"
  by (auto simp: child_triangles_def split: Option.bind_splits)

lemma destination_steps:
  assumes "destination (butterfly_subdivision ar pairs holds m w) = Some dst"
  obtains bld where "face_loop ar m w (faces m) new_builder = Returns bld"
    and "driver_steps ar m w new_builder bld"
    and "dst_vertices dst = dst_vertices bld" and "dst_triangles dst = dst_triangles bld"
    and "dst_vertex_map dst = dst_vertex_map bld"
    and "calls dst = calls bld @ [Finalize] \<or> calls dst = calls bld @ [Finalize, CheckInvariants]"
proof -
  from butterfly_subdivision_destination [OF assms] obtain bld
    where b: "face_loop ar m w (faces m) new_builder = Returns bld"
      "dst_vertices dst = dst_vertices bld" "dst_triangles dst = dst_triangles bld"
      "dst_vertex_map dst = dst_vertex_map bld"
      "calls dst = calls bld @ [Finalize] \<or> calls dst = calls bld @ [Finalize, CheckInvariants]"
    by blast
  have "driver_steps ar m w new_builder bld" using no_step b(1) by (rule face_loop_steps)
  with b show thesis using that by blast
qed

lemma child_triangles_cong:
  "dst_vertex_map dst = dst_vertex_map bld \<Longrightarrow> child_triangles m dst = child_triangles m bld"
  by (rule ext) (simp add: child_triangles_def find_dst_vertex_of_def)

lemma two_faces_destination:
  "destination (butterfly_subdivision ieee always always two_faces (Fin (1 / 16))) =
     Some (two_faces_refined ieee (Fin (1 / 16)))"
  by (simp add: two_faces_run)

text \<open>
  Claim C2. For every source vertex (a vertex pointer that can be dereferenced),
  \<open>vertex_rule\<close> returns that vertex's own position: it is defined on every vertex and
  changes nothing. Hence in the destination a run leaves, every destination vertex that
  was created for a source vertex lies exactly at that source vertex's position.
\<close>

theorem vertex_rule_preserves_position:
  "(deref_vertex m v = Some vx \<longrightarrow> vertex_rule m v = Some (position vx)) \<and>
   (destination (butterfly_subdivision ar pairs holds m w) = Some dst \<and>
    (VertexKey v', i) \<in> set (dst_vertex_map dst) \<longrightarrow>
      i < length (dst_vertices dst) \<and>
      map_option position (deref_vertex m v') = Some (dst_vertices dst ! i))"
proof (intro conjI impI)
  assume "deref_vertex m v = Some vx"
  then show "vertex_rule m v = Some (position vx)" by (simp add: vertex_rule_def)
next
  assume a: "destination (butterfly_subdivision ar pairs holds m w) = Some dst \<and>
    (VertexKey v', i) \<in> set (dst_vertex_map dst)"
  then obtain bld where steps: "driver_steps ar m w new_builder bld"
    and eq: "dst_vertices dst = dst_vertices bld" "dst_vertex_map dst = dst_vertex_map bld"
    using destination_steps by blast
  from a eq have "(VertexKey v', i) \<in> set (dst_vertex_map bld)" by simp
  from steps_positions [OF steps this]
  have i: "i < length (dst_vertices bld)" and "vertex_rule m v' = Some (dst_vertices bld ! i)"
    by (simp_all add: placed_def)
  then have "map_option position (deref_vertex m v') = Some (dst_vertices bld ! i)"
    by (simp add: vertex_rule_def split: option.splits)
  with i eq show "i < length (dst_vertices dst)"
    and "map_option position (deref_vertex m v') = Some (dst_vertices dst ! i)"
    by simp_all
qed

theorem vertex_rule_preserves_position_witness:
  "destination (butterfly_subdivision ieee always always two_faces (Fin (1 / 16))) =
     Some (two_faces_refined ieee (Fin (1 / 16))) \<and>
   vertex_rule two_faces (Some 1) = Some (vec 2 0 0) \<and>
   (VertexKey (Some 1), 1) \<in> set (dst_vertex_map (two_faces_refined ieee (Fin (1 / 16)))) \<and>
   dst_vertices (two_faces_refined ieee (Fin (1 / 16))) ! 1 = vec 2 0 0"
proof -
  have d: "deref_vertex two_faces (Some 1) = Some (vertex_at (vec 2 0 0))"
    by (simp add: mesh_defs pointer_defs)
  note r = two_faces_destination
  have k: "(VertexKey (Some 1), 1) \<in> set (dst_vertex_map (two_faces_refined ieee (Fin (1 / 16))))"
    by (simp add: two_faces_refined_def)
  from vertex_rule_preserves_position [where m = two_faces and v = "Some 1"
      and vx = "vertex_at (vec 2 0 0)" and ar = ieee and pairs = always and holds = always
      and w = "Fin (1 / 16)" and dst = "two_faces_refined ieee (Fin (1 / 16))"
      and v' = "Some 1" and i = 1] d r k
  show ?thesis by (simp add: vertex_at_def)
qed

text \<open>
  Claim C3. In the destination a run leaves, the \<^verbatim>\<open>insert_vertex\<close> calls made have
  pairwise distinct source keys: at most one destination vertex was created per source
  vertex and per unordered source edge, and the builder's mapping lists exactly these
  vertices, each once. A half-edge and a twin that is the same edge reversed have the
  same key, so both map to the same destination vertex. Every face's four triangles are
  made of the counterparts that this one mapping gives for the face's keys, so faces
  that share a vertex or an edge receive the identical destination vertex.
\<close>

theorem one_destination_vertex_per_source_key:
  assumes "destination (butterfly_subdivision ar pairs holds m w) = Some dst"
  shows "distinct (created_keys (calls dst)) \<and>
         created_keys (calls dst) = rev (map fst (dst_vertex_map dst)) \<and>
         map snd (dst_vertex_map dst) = rev [0..<length (dst_vertices dst)] \<and>
         (deref_edge m e = Some ed \<and> deref_edge m (twin ed) = Some td \<and>
          start td = end_vertex ed \<and> end_vertex td = start ed \<longrightarrow>
            edge_key m (twin ed) = edge_key m e) \<and>
         (\<exists>tss. map (child_triangles m dst) (faces m) = map Some tss \<and>
            dst_triangles dst = concat tss)"
proof -
  from assms obtain bld where loop: "face_loop ar m w (faces m) new_builder = Returns bld"
    and steps: "driver_steps ar m w new_builder bld"
    and eq: "dst_vertices dst = dst_vertices bld" "dst_triangles dst = dst_triangles bld"
      "dst_vertex_map dst = dst_vertex_map bld"
    and cs: "calls dst = calls bld @ [Finalize] \<or> calls dst = calls bld @ [Finalize, CheckInvariants]"
    by (rule destination_steps)
  from cs have keys: "created_keys (calls dst) = created_keys (calls bld)"
    by (auto simp: created_keys_append)
  from steps_keys [OF steps] keys eq
  have "distinct (created_keys (calls dst))"
    and "created_keys (calls dst) = rev (map fst (dst_vertex_map dst))"
    and "map snd (dst_vertex_map dst) = rev [0..<length (dst_vertices dst)]"
    by simp_all
  moreover from face_loop_children [OF loop]
  have "\<exists>tss. map (child_triangles m dst) (faces m) = map Some tss \<and> dst_triangles dst = concat tss"
    by (auto simp: new_builder_def eq(2) child_triangles_cong [OF eq(3)])
  ultimately show ?thesis by (auto simp: edge_key_twin)
qed

theorem one_destination_vertex_per_source_key_witness:
  "destination (butterfly_subdivision ieee always always two_faces (Fin (1 / 16))) =
     Some (two_faces_refined ieee (Fin (1 / 16))) \<and>
   count_list (created_keys (calls (two_faces_refined ieee (Fin (1 / 16)))))
     (EdgeKey (Some 0) (Some 1)) = 1 \<and>
   count_list (created_keys (calls (two_faces_refined ieee (Fin (1 / 16)))))
     (VertexKey (Some 0)) = 1 \<and>
   edge_key two_faces (Some 3) = edge_key two_faces (Some 0) \<and>
   length (dst_vertices (two_faces_refined ieee (Fin (1 / 16)))) = 6"
proof -
  note r = two_faces_destination
  have e: "deref_edge two_faces (Some 0) = Some (half_edge 0 1 1 2 3)"
    and t: "deref_edge two_faces (twin (half_edge 0 1 1 2 3)) = Some (half_edge 1 0 4 5 0)"
    by (simp_all add: mesh_defs pointer_defs)
  from one_destination_vertex_per_source_key [OF r, of "Some 0" "half_edge 0 1 1 2 3"
      "half_edge 1 0 4 5 0"] e t
  have "edge_key two_faces (Some 3) = edge_key two_faces (Some 0)"
    by (simp add: half_edge_def)
  moreover have "count_list (created_keys (calls (two_faces_refined ieee (Fin (1 / 16)))))
      (EdgeKey (Some 0) (Some 1)) = 1"
    "count_list (created_keys (calls (two_faces_refined ieee (Fin (1 / 16)))))
      (VertexKey (Some 0)) = 1"
    "length (dst_vertices (two_faces_refined ieee (Fin (1 / 16)))) = 6"
    by (simp_all add: two_faces_refined_def)
  ultimately show ?thesis using r by simp
qed

lemma child_triangles_winding:
  "child_triangles m dst face = Some ts \<Longrightarrow> winding_preserved m dst face"
  by (auto simp: winding_preserved_def child_triangles_def split_boundary_def triangle_edges_def
      split: Option.bind_splits)

text \<open>
  Claim C4. On a source mesh whose faces all have a fully resolvable neighbourhood the
  run is defined and leaves a destination. The triangles of the destination a run
  leaves are, face by face in the order of the source faces, the four child triangles
  \<open>(v0, m0, m2)\<close>, \<open>(m0, v1, m1)\<close>, \<open>(m2, m1, v2)\<close>, \<open>(m0, m1, m2)\<close> of \<open>child_triangles\<close>,
  in this order; so a source mesh with \<open>F\<close> faces yields exactly \<open>4F\<close> destination
  triangles, three corner triangles and the central one per face, and they keep the
  face's winding.
\<close>

theorem four_child_triangles_per_face:
  "(list_all (face_ok m) (faces m) \<longrightarrow>
      (\<exists>dst'. destination (butterfly_subdivision ar pairs holds m w) = Some dst')) \<and>
   (destination (butterfly_subdivision ar pairs holds m w) = Some dst \<longrightarrow>
      (\<exists>tss. map (child_triangles m dst) (faces m) = map Some tss \<and>
         dst_triangles dst = concat tss \<and> list_all (\<lambda>ts. length ts = 4) tss \<and>
         length (dst_triangles dst) = 4 * length (faces m) \<and>
         list_all (winding_preserved m dst) (faces m)))"
proof (intro conjI impI)
  assume "list_all (face_ok m) (faces m)"
  then show "\<exists>dst'. destination (butterfly_subdivision ar pairs holds m w) = Some dst'"
    by (rule butterfly_subdivision_defined)
next
  assume d: "destination (butterfly_subdivision ar pairs holds m w) = Some dst"
  then obtain bld where loop: "face_loop ar m w (faces m) new_builder = Returns bld"
    and eq: "dst_triangles dst = dst_triangles bld" "dst_vertex_map dst = dst_vertex_map bld"
    by (rule destination_steps)
  from face_loop_children [OF loop] obtain tss
    where tss: "map (child_triangles m dst) (faces m) = map Some tss"
      "dst_triangles dst = concat tss" "length (concat tss) = 4 * length (faces m)"
    by (auto simp: new_builder_def eq(1) child_triangles_cong [OF eq(2)])
  have "length ts = 4" if "ts \<in> set tss" for ts
  proof -
    from that have "Some ts \<in> set (map (child_triangles m dst) (faces m))"
      by (simp add: tss(1))
    then obtain face where "child_triangles m dst face = Some ts" by auto
    then show ?thesis by (rule child_triangles_length)
  qed
  then have "list_all (\<lambda>ts. length ts = 4) tss" by (simp add: list_all_iff)
  moreover have "winding_preserved m dst face" if "face \<in> set (faces m)" for face
  proof -
    from that have "child_triangles m dst face \<in> set (map Some tss)"
      unfolding tss(1) [symmetric] by simp
    then obtain ts where "child_triangles m dst face = Some ts" by auto
    then show ?thesis by (rule child_triangles_winding)
  qed
  then have "list_all (winding_preserved m dst) (faces m)" by (simp add: list_all_iff)
  ultimately show "\<exists>tss. map (child_triangles m dst) (faces m) = map Some tss \<and>
         dst_triangles dst = concat tss \<and> list_all (\<lambda>ts. length ts = 4) tss \<and>
         length (dst_triangles dst) = 4 * length (faces m) \<and>
         list_all (winding_preserved m dst) (faces m)"
    using tss by auto
qed

theorem four_child_triangles_per_face_witness:
  "list_all (face_ok two_faces) (faces two_faces) \<and>
   destination (butterfly_subdivision ieee always always two_faces (Fin (1 / 16))) =
     Some (two_faces_refined ieee (Fin (1 / 16))) \<and>
   map (child_triangles two_faces (two_faces_refined ieee (Fin (1 / 16)))) (faces two_faces) =
     [Some [(0, 3, 5), (3, 1, 4), (5, 4, 2), (3, 4, 5)],
      Some [(1, 3, 4), (3, 0, 5), (4, 5, 2), (3, 5, 4)]] \<and>
   dst_triangles (two_faces_refined ieee (Fin (1 / 16))) =
     [(0, 3, 5), (3, 1, 4), (5, 4, 2), (3, 4, 5), (1, 3, 4), (3, 0, 5), (4, 5, 2), (3, 5, 4)] \<and>
   split_boundary two_faces (two_faces_refined ieee (Fin (1 / 16))) (face_of 0) =
     Some [(0, 3), (3, 1), (1, 4), (4, 2), (2, 5), (5, 0)] \<and>
   winding_preserved two_faces (two_faces_refined ieee (Fin (1 / 16))) (face_of 0)"
proof -
  let ?dst = "two_faces_refined ieee (Fin (1 / 16))"
  note r = two_faces_destination
  have c: "map (child_triangles two_faces ?dst) (faces two_faces) =
     [Some [(0, 3, 5), (3, 1, 4), (5, 4, 2), (3, 4, 5)],
      Some [(1, 3, 4), (3, 0, 5), (4, 5, 2), (3, 5, 4)]]"
    by (simp add: child_triangles_def find_dst_vertex_of_def edge_key_def unordered_edge_def
        mesh_defs pointer_defs two_faces_refined_def)
  have b: "split_boundary two_faces ?dst (face_of 0) =
     Some [(0, 3), (3, 1), (1, 4), (4, 2), (2, 5), (5, 0)]"
    by (simp add: split_boundary_def find_dst_vertex_of_def edge_key_def unordered_edge_def
        mesh_defs pointer_defs two_faces_refined_def)
  from four_child_triangles_per_face [of two_faces ieee always always "Fin (1 / 16)" ?dst]
    two_faces_ok r
  obtain tss
    where "map (child_triangles two_faces ?dst) (faces two_faces) = map Some tss"
      and "dst_triangles ?dst = concat tss"
      and "list_all (winding_preserved two_faces ?dst) (faces two_faces)"
    by blast
  with c have "dst_triangles ?dst =
     concat [[(0, 3, 5), (3, 1, 4), (5, 4, 2), (3, 4, 5)], [(1, 3, 4), (3, 0, 5), (4, 5, 2), (3, 5, 4)]]"
    and "winding_preserved two_faces ?dst (face_of 0)"
    by (auto simp: map_eq_Cons_conv two_faces_def)
  with c b r two_faces_ok show ?thesis by simp
qed








text \<open>
  Claim C7, as stated, fails: on a single triangle with an open boundary the stencil of
  its first edge has no twin, and the run is undefined behaviour. It is not a failure
  thrown to the caller.
\<close>

theorem open_boundary_is_not_reported:
  "butterfly_subdivision ieee always always open_triangle (Fin (1 / 16)) = Undefined"
  by (simp add: driver_defs edge_rule_def mesh_defs pointer_defs Let_def)

text \<open>
  Claim C7, amended. If a link or a vertex on one of the eight stencil paths is absent,
  \<open>edge_rule\<close> has no defined result for any weight (it dereferences the absent object
  and substitutes no default position), and the driver's edge loop, on reaching such an
  edge that has no destination vertex yet, is undefined behaviour: the driver neither
  checks for the condition nor reports a failure.
\<close>

theorem missing_link_is_undefined:
  assumes "stencil m e = None" and "Option.bind (edge_key m e) (find_dst_vertex_of bld) = None"
  shows "edge_rule ar m e w = None \<and> edge_loop ar m w (e # es) bld erv = Undefined"
proof -
  from assms(1) have "edge_rule ar m e w = None" by (rule edge_rule_no_stencil)
  with assms(2) show ?thesis by (simp split: option.splits Option.bind_splits)
qed

theorem missing_link_is_undefined_witness:
  "edge_rule ieee open_triangle (Some 0) (Fin (1 / 16)) = None \<and>
   edge_loop ieee open_triangle (Fin (1 / 16)) [Some 0, Some 1, Some 2] new_builder [] = Undefined"
proof -
  have k: "Option.bind (edge_key open_triangle (Some 0)) (find_dst_vertex_of new_builder) = None"
    by (simp add: edge_key_def find_dst_vertex_of_def new_builder_def mesh_defs pointer_defs)
  from missing_link_is_undefined [OF open_triangle_stencil k] show ?thesis by simp
qed




text \<open>
  Claim C9. The vertex loop and the edge loop push exactly one destination vertex per
  element they iterate over; for a face they iterate over three elements each, so where
  the block of lines 81-137 returns, \<^verbatim>\<open>vertex_rule_vertices\<close> and \<^verbatim>\<open>edge_rule_vertices\<close>
  hold exactly three elements, every \<^verbatim>\<open>.at(0)\<close>, \<^verbatim>\<open>.at(1)\<close>, \<^verbatim>\<open>.at(2)\<close> is in range and
  the four \<^verbatim>\<open>insert_triangle\<close> statements complete; no run throws
  \<^verbatim>\<open>std::out_of_range\<close>.
\<close>

theorem rule_vertices_in_range:
  "(vertex_loop m vs bld vrv0 = Returns (vrv1, bld1) \<longrightarrow> length vrv1 = length vrv0 + length vs) \<and>
   (edge_loop ar m w es bld erv0 = Returns (erv1, bld2) \<longrightarrow> length erv1 = length erv0 + length es) \<and>
   (compute_rule_vertices ar m w bld face = Returns (vrv, erv, bld') \<longrightarrow>
      length vrv = 3 \<and> length erv = 3 \<and>
      at_index vrv 0 \<noteq> None \<and> at_index vrv 1 \<noteq> None \<and> at_index vrv 2 \<noteq> None \<and>
      at_index erv 0 \<noteq> None \<and> at_index erv 1 \<noteq> None \<and> at_index erv 2 \<noteq> None \<and>
      (\<exists>dst. insert_face_triangles vrv erv bld' = Returns dst)) \<and>
   process_face ar m w bld face \<noteq> Throws OutOfRange b \<and>
   butterfly_subdivision ar pairs holds m w \<noteq> Throws OutOfRange b"
proof (intro conjI impI)
  assume "vertex_loop m vs bld vrv0 = Returns (vrv1, bld1)"
  then show "length vrv1 = length vrv0 + length vs" by (rule vertex_loop_length)
next
  assume "edge_loop ar m w es bld erv0 = Returns (erv1, bld2)"
  then show "length erv1 = length erv0 + length es" by (rule edge_loop_length)
next
  assume c: "compute_rule_vertices ar m w bld face = Returns (vrv, erv, bld')"
  from compute_rule_vertices_lengths [OF c] show l: "length vrv = 3" "length erv = 3"
    by simp_all
  then show "at_index vrv 0 \<noteq> None" "at_index vrv 1 \<noteq> None" "at_index vrv 2 \<noteq> None"
    "at_index erv 0 \<noteq> None" "at_index erv 1 \<noteq> None" "at_index erv 2 \<noteq> None"
    by (simp_all add: at_index_def)
  from l show "\<exists>dst. insert_face_triangles vrv erv bld' = Returns dst"
    by (rule insert_face_triangles_in_range)
next
  show "process_face ar m w bld face \<noteq> Throws OutOfRange b" by (rule process_face_no_throw)
next
  show "butterfly_subdivision ar pairs holds m w \<noteq> Throws OutOfRange b"
    by (auto simp: butterfly_subdivision_def bind_outcome_Throws face_loop_no_throw finalize_def
        check_mesh_invariants_def Let_def split: call_result.splits)
qed

theorem rule_vertices_in_range_witness:
  "(\<exists>bld1. vertex_loop two_faces [Some 0, Some 1, Some 2] new_builder [] =
      Returns ([0, 1, 2], bld1)) \<and>
   (\<exists>bld2. edge_loop ieee two_faces (Fin (1 / 16)) [Some 0, Some 1, Some 2] new_builder [] =
      Returns ([0, 1, 2], bld2)) \<and>
   (\<exists>bld'. compute_rule_vertices ieee two_faces (Fin (1 / 16)) new_builder (face_of 0) =
      Returns ([0, 1, 2], [3, 4, 5], bld') \<and>
      (\<exists>dst. insert_face_triangles [0, 1, 2] [3, 4, 5] bld' = Returns dst))"
proof -
  obtain bld1 where v: "vertex_loop two_faces [Some 0, Some 1, Some 2] new_builder [] =
      Returns ([0, 1, 2], bld1)"
    by (simp add: driver_defs mesh_defs pointer_defs Let_def)
  obtain bld2 where e: "edge_loop ieee two_faces (Fin (1 / 16)) [Some 0, Some 1, Some 2] new_builder [] =
      Returns ([0, 1, 2], bld2)"
    by (simp add: driver_defs edge_rule_def mesh_defs pointer_defs Let_def)
  obtain bld' where c: "compute_rule_vertices ieee two_faces (Fin (1 / 16)) new_builder (face_of 0) =
      Returns ([0, 1, 2], [3, 4, 5], bld')"
    by (simp add: driver_defs edge_rule_def mesh_defs pointer_defs Let_def)
  from rule_vertices_in_range [where m = two_faces and vs = "[Some 0, Some 1, Some 2]"
      and bld = new_builder and ?vrv0.0 = "[]" and ?vrv1.0 = "[0, 1, 2]" and ?bld1.0 = bld1
      and ar = ieee and w = "Fin (1 / 16)" and es = "[Some 0, Some 1, Some 2]" and ?erv0.0 = "[]"
      and ?erv1.0 = "[0, 1, 2]" and ?bld2.0 = bld2 and face = "face_of 0"
      and vrv = "[0, 1, 2]" and erv = "[3, 4, 5]" and bld' = bld'] v e c
  have "\<exists>dst. insert_face_triangles [0, 1, 2] [3, 4, 5] bld' = Returns dst" by simp
  with v e c show ?thesis by blast
qed

end
